theory Spec2Isabelle
  imports Main
begin

section \<open>The database of the Skill Swap Platform\<close>

text \<open>
  The tables of \<^verbatim>\<open>backend/models/database.sql\<close> that the swap ledger reads and
  writes. A table is the list of its rows; a row is a record whose fields carry the
  aliases the queries of the source use (\<^verbatim>\<open>u\<close>, \<^verbatim>\<open>s\<close>, \<^verbatim>\<open>uso\<close>,
  \<^verbatim>\<open>sr\<close>, \<^verbatim>\<open>f\<close>). A nullable column is an option. The columns
  \<^verbatim>\<open>created_at\<close> and \<^verbatim>\<open>updated_at\<close> take the database clock
  (\<^verbatim>\<open>CURRENT_TIMESTAMP\<close>) and are left out, as are the password and reset-token
  columns of \<^verbatim>\<open>users\<close>.
\<close>

record user_row =
  u_id :: string
  u_name :: string
  u_email :: string
  u_profile_photo :: "string option"
  u_is_public :: bool
  u_is_banned :: bool
  u_ban_reason :: "string option"
  u_role :: string

record skill_row =
  s_id :: string
  s_name :: string
  s_status :: string
  s_rejection_reason :: "string option"

record offered_row =
  uso_id :: string
  uso_user_id :: string
  uso_skill_id :: string

record swap_row =
  sr_id :: string
  sr_sender_id :: string
  sr_receiver_id :: string
  sr_offered_skill_id :: string
  sr_wanted_skill_id :: string
  sr_message :: "string option"
  sr_status :: string

record feedback_row =
  f_id :: string
  f_swap_id :: string
  f_user_id :: string
  f_rating :: int
  f_comment :: "string option"

record db =
  users :: "user_row list"
  skills :: "skill_row list"
  user_skills_offered :: "offered_row list"
  swap_requests :: "swap_row list"
  feedback :: "feedback_row list"

text \<open>
  What a model function throws: \<^verbatim>\<open>new Error(message)\<close> of the JavaScript, or the
  error the database raises when a statement violates a constraint of
  \<^verbatim>\<open>database.sql\<close> (named by the constraint). A function that throws returns
  \<open>Inl\<close> of the error.
\<close>

datatype error = Error string | ConstraintViolation string

section \<open>Objects the models return\<close>

record feedback_obj =
  fb_id :: string
  userId :: string
  userName :: string
  userPhoto :: "string option"
  rating :: int
  comment :: "string option"

record swap =
  swap_id :: string
  senderId :: string
  senderName :: string
  senderPhoto :: "string option"
  receiverId :: string
  receiverName :: string
  receiverPhoto :: "string option"
  offeredSkillId :: string
  offeredSkillName :: string
  wantedSkillId :: string
  wantedSkillName :: string
  message :: "string option"
  status :: string
  swap_feedback :: "feedback_obj list"

record skill =
  skill_id :: string
  skill_name :: string
  skill_status :: string
  rejectionReason :: "string option"

section \<open>Swap request model\<close>

subsection \<open>getSwapRequestById\<close>

text \<open>
  The feedback query of \<^verbatim>\<open>getSwapRequestById\<close>:
  \<^verbatim>\<open>FROM feedback f JOIN users u ON f.user_id = u.id WHERE f.swap_id = :swapId\<close>.
\<close>

definition feedback_obj_of :: "feedback_row \<Rightarrow> user_row \<Rightarrow> feedback_obj" where
  "feedback_obj_of f u =
     \<lparr>fb_id = f_id f, userId = f_user_id f, userName = u_name u,
      userPhoto = u_profile_photo u, rating = f_rating f, comment = f_comment f\<rparr>"

definition feedback_of_swap :: "db \<Rightarrow> string \<Rightarrow> feedback_obj list" where
  "feedback_of_swap d swapId =
     [feedback_obj_of f u. f \<leftarrow> feedback d, f_swap_id f = swapId,
                           u \<leftarrow> users d, u_id u = f_user_id f]"

text \<open>
  The rows the four joins of the main query give for one row of
  \<^verbatim>\<open>swap_requests\<close>: one for every sender, receiver, offered skill and wanted
  skill that the row's foreign keys find.
\<close>

definition swap_join :: "db \<Rightarrow> swap_row \<Rightarrow> swap list" where
  "swap_join d sr =
     [\<lparr>swap_id = sr_id sr,
       senderId = sr_sender_id sr, senderName = u_name sender,
       senderPhoto = u_profile_photo sender,
       receiverId = sr_receiver_id sr, receiverName = u_name receiver,
       receiverPhoto = u_profile_photo receiver,
       offeredSkillId = sr_offered_skill_id sr, offeredSkillName = s_name offered,
       wantedSkillId = sr_wanted_skill_id sr, wantedSkillName = s_name wanted,
       message = sr_message sr, status = sr_status sr,
       swap_feedback = feedback_of_swap d (sr_id sr)\<rparr>.
      sender \<leftarrow> users d, u_id sender = sr_sender_id sr,
      receiver \<leftarrow> users d, u_id receiver = sr_receiver_id sr,
      offered \<leftarrow> skills d, s_id offered = sr_offered_skill_id sr,
      wanted \<leftarrow> skills d, s_id wanted = sr_wanted_skill_id sr]"

definition swap_rows :: "db \<Rightarrow> string \<Rightarrow> swap list" where
  "swap_rows d i = concat (map (swap_join d) (filter (\<lambda>sr. sr_id sr = i) (swap_requests d)))"

text \<open>\<^verbatim>\<open>null\<close> when the query has no row, else the object built from its first row.\<close>

definition getSwapRequestById :: "db \<Rightarrow> string \<Rightarrow> swap option" where
  "getSwapRequestById d i = (case swap_rows d i of [] \<Rightarrow> None | s # _ \<Rightarrow> Some s)"

subsection \<open>createSwapRequest\<close>

record swapData =
  sd_senderId :: string
  sd_receiverId :: string
  sd_offeredSkillId :: string
  sd_wantedSkillId :: string
  sd_message :: "string option"

text \<open>\<^verbatim>\<open>x || null\<close> on an optional string: the empty string is falsy.\<close>

definition or_null :: "string option \<Rightarrow> string option" where
  "or_null m = (case m of None \<Rightarrow> None | Some s \<Rightarrow> if s = [] then None else Some s)"

text \<open>
  \<^verbatim>\<open>INSERT INTO swap_requests (...) VALUES (..., 'pending')\<close> under the table's
  constraints: the primary key, the four foreign keys and the width of
  \<^verbatim>\<open>message\<close>.
\<close>

definition insert_swap_request :: "db \<Rightarrow> swap_row \<Rightarrow> error + db" where
  "insert_swap_request d r =
     (if sr_id r \<in> set (map sr_id (swap_requests d)) then
        Inl (ConstraintViolation ''swap_requests primary key'')
      else if sr_sender_id r \<notin> set (map u_id (users d)) then
        Inl (ConstraintViolation ''fk_swap_sender'')
      else if sr_receiver_id r \<notin> set (map u_id (users d)) then
        Inl (ConstraintViolation ''fk_swap_receiver'')
      else if sr_offered_skill_id r \<notin> set (map s_id (skills d)) then
        Inl (ConstraintViolation ''fk_swap_offered_skill'')
      else if sr_wanted_skill_id r \<notin> set (map s_id (skills d)) then
        Inl (ConstraintViolation ''fk_swap_wanted_skill'')
      else if (case sr_message r of None \<Rightarrow> False | Some m \<Rightarrow> 500 < length m) then
        Inl (ConstraintViolation ''swap_requests.message VARCHAR2(500)'')
      else Inr (d\<lparr>swap_requests := swap_requests d @ [r]\<rparr>))"

text \<open>
  \<^verbatim>\<open>exports.createSwapRequest(swapData)\<close> of the swap model. The first argument
  after the database is the identifier \<^verbatim>\<open>crypto.randomUUID()\<close> gives.
\<close>

definition createSwapRequest :: "db \<Rightarrow> string \<Rightarrow> swapData \<Rightarrow> db \<times> (error + swap option)" where
  "createSwapRequest d newId sd =
     (case insert_swap_request d
             \<lparr>sr_id = newId, sr_sender_id = sd_senderId sd, sr_receiver_id = sd_receiverId sd,
              sr_offered_skill_id = sd_offeredSkillId sd,
              sr_wanted_skill_id = sd_wantedSkillId sd,
              sr_message = or_null (sd_message sd), sr_status = ''pending''\<rparr> of
        Inl e \<Rightarrow> (d, Inl e)
      | Inr d' \<Rightarrow> (d', Inr (getSwapRequestById d' newId)))"

subsection \<open>updateSwapRequestStatus and the three transitions\<close>

text \<open>
  \<^verbatim>\<open>UPDATE swap_requests SET status = :status, updated_at = CURRENT_TIMESTAMP
  WHERE id = :id\<close>.
\<close>

definition update_status :: "db \<Rightarrow> string \<Rightarrow> string \<Rightarrow> db" where
  "update_status d i st =
     d\<lparr>swap_requests :=
         map (\<lambda>sr. if sr_id sr = i then sr\<lparr>sr_status := st\<rparr> else sr) (swap_requests d)\<rparr>"

text \<open>
  The function in its two parts, split where it awaits the database between reading
  and writing: the validation of the new status and the permission checks on the swap
  it has read (\<open>None\<close> when all pass), then the update and the read of the result.
\<close>

definition invalid_status :: error where
  \<open>invalid_status =
     Error ''Invalid status. Must be "pending", "accepted", "rejected", or "completed".''\<close>

definition status_checks :: "db \<Rightarrow> string \<Rightarrow> string \<Rightarrow> string \<Rightarrow> error option" where
  "status_checks d i st uid =
     (if st \<notin> set [''pending'', ''accepted'', ''rejected'', ''completed''] then
        Some invalid_status
      else case getSwapRequestById d i of
        None \<Rightarrow> Some (Error ''Swap request not found'')
      | Some sw \<Rightarrow>
          if senderId sw \<noteq> uid \<and> receiverId sw \<noteq> uid then
            Some (Error ''Not authorized to update this swap request'')
          else if (st = ''accepted'' \<or> st = ''rejected'') \<and> receiverId sw \<noteq> uid then
            Some (Error ''Only the receiver can accept or reject a swap request'')
          else if st = ''completed'' \<and> senderId sw \<noteq> uid \<and> receiverId sw \<noteq> uid then
            Some (Error ''Only participants can mark a swap as completed'')
          else None)"

definition status_write :: "db \<Rightarrow> string \<Rightarrow> string \<Rightarrow> db \<times> swap option" where
  "status_write d i st = (let d' = update_status d i st in (d', getSwapRequestById d' i))"

definition updateSwapRequestStatus ::
  "db \<Rightarrow> string \<Rightarrow> string \<Rightarrow> string \<Rightarrow> db \<times> (error + swap option)" where
  "updateSwapRequestStatus d i st uid =
     (case status_checks d i st uid of
        Some e \<Rightarrow> (d, Inl e)
      | None \<Rightarrow> (case status_write d i st of (d', r) \<Rightarrow> (d', Inr r)))"

definition acceptSwapRequest :: "db \<Rightarrow> string \<Rightarrow> string \<Rightarrow> db \<times> (error + swap option)" where
  "acceptSwapRequest d i uid = updateSwapRequestStatus d i ''accepted'' uid"

definition rejectSwapRequest :: "db \<Rightarrow> string \<Rightarrow> string \<Rightarrow> db \<times> (error + swap option)" where
  "rejectSwapRequest d i uid = updateSwapRequestStatus d i ''rejected'' uid"

definition completeSwapRequest :: "db \<Rightarrow> string \<Rightarrow> string \<Rightarrow> db \<times> (error + swap option)" where
  "completeSwapRequest d i uid = updateSwapRequestStatus d i ''completed'' uid"

subsection \<open>deleteSwapRequest\<close>

text \<open>
  \<^verbatim>\<open>DELETE FROM swap_requests WHERE id = :id\<close>; the feedback rows of a deleted
  swap go with it (\<^verbatim>\<open>fk_feedback_swap ... ON DELETE CASCADE\<close>). The result is
  the new database and \<^verbatim>\<open>rowsAffected\<close>.
\<close>

definition delete_swap_request :: "db \<Rightarrow> string \<Rightarrow> db \<times> nat" where
  "delete_swap_request d i =
     (d\<lparr>swap_requests := filter (\<lambda>sr. sr_id sr \<noteq> i) (swap_requests d),
        feedback := (if i \<in> set (map sr_id (swap_requests d))
                     then filter (\<lambda>f. f_swap_id f \<noteq> i) (feedback d) else feedback d)\<rparr>,
      length (filter (\<lambda>sr. sr_id sr = i) (swap_requests d)))"

definition deleteSwapRequest :: "db \<Rightarrow> string \<Rightarrow> string \<Rightarrow> db \<times> (error + bool)" where
  "deleteSwapRequest d i uid =
     (case getSwapRequestById d i of
        None \<Rightarrow> (d, Inl (Error ''Swap request not found''))
      | Some sw \<Rightarrow>
          if senderId sw \<noteq> uid then
            (d, Inl (Error ''Only the sender can delete a swap request''))
          else if status sw \<noteq> ''pending'' then
            (d, Inl (Error ''Only pending swap requests can be deleted''))
          else (case delete_swap_request d i of (d', n) \<Rightarrow> (d', Inr (0 < n))))"

subsection \<open>addFeedback\<close>

text \<open>
  \<^verbatim>\<open>INSERT INTO feedback (id, swap_id, user_id, rating, comment)\<close> under the
  table's constraints: \<^verbatim>\<open>rating NUMBER(1) NOT NULL CHECK (rating BETWEEN 1 AND 5)\<close>,
  the primary key, \<^verbatim>\<open>uk_feedback_user_swap UNIQUE (user_id, swap_id)\<close>, the two
  foreign keys and the width of \<^verbatim>\<open>comment\<close>.
\<close>

definition insert_feedback :: "db \<Rightarrow> feedback_row \<Rightarrow> error + db" where
  "insert_feedback d r =
     (if \<not> (1 \<le> f_rating r \<and> f_rating r \<le> 5) then
        Inl (ConstraintViolation ''feedback.rating CHECK (rating BETWEEN 1 AND 5)'')
      else if f_id r \<in> set (map f_id (feedback d)) then
        Inl (ConstraintViolation ''feedback primary key'')
      else if (f_user_id r, f_swap_id r) \<in> set (map (\<lambda>f. (f_user_id f, f_swap_id f)) (feedback d)) then
        Inl (ConstraintViolation ''uk_feedback_user_swap'')
      else if f_swap_id r \<notin> set (map sr_id (swap_requests d)) then
        Inl (ConstraintViolation ''fk_feedback_swap'')
      else if f_user_id r \<notin> set (map u_id (users d)) then
        Inl (ConstraintViolation ''fk_feedback_user'')
      else if (case f_comment r of None \<Rightarrow> False | Some c \<Rightarrow> 500 < length c) then
        Inl (ConstraintViolation ''feedback.comment VARCHAR2(500)'')
      else Inr (d\<lparr>feedback := feedback d @ [r]\<rparr>))"

text \<open>
  \<^verbatim>\<open>exports.addFeedback(swapId, userId, rating, comment)\<close>; the first argument
  after the database is the identifier \<^verbatim>\<open>crypto.randomUUID()\<close> gives.
\<close>

definition addFeedback ::
  "db \<Rightarrow> string \<Rightarrow> string \<Rightarrow> string \<Rightarrow> int \<Rightarrow> string option \<Rightarrow> db \<times> (error + feedback_obj)" where
  "addFeedback d newId swapId uid r c =
     (case getSwapRequestById d swapId of
        None \<Rightarrow> (d, Inl (Error ''Swap request not found''))
      | Some sw \<Rightarrow>
          if senderId sw \<noteq> uid \<and> receiverId sw \<noteq> uid then
            (d, Inl (Error ''Only participants can add feedback''))
          else if status sw \<noteq> ''completed'' then
            (d, Inl (Error ''Feedback can only be added to completed swaps''))
          else if 0 < length (filter (\<lambda>f. f_swap_id f = swapId \<and> f_user_id f = uid) (feedback d)) then
            (d, Inl (Error ''You have already left feedback for this swap''))
          else
            (case insert_feedback d
                    \<lparr>f_id = newId, f_swap_id = swapId, f_user_id = uid,
                     f_rating = r, f_comment = c\<rparr> of
               Inl e \<Rightarrow> (d, Inl e)
             | Inr d' \<Rightarrow>
                 (case [feedback_obj_of f u. f \<leftarrow> feedback d', f_id f = newId,
                                              u \<leftarrow> users d', u_id u = f_user_id f] of
                    [] \<Rightarrow> (d', Inl (Error ''Error retrieving created feedback''))
                  | fb # _ \<Rightarrow> (d', Inr fb))))"

section \<open>Skill model\<close>

text \<open>
  \<^verbatim>\<open>LOWER\<close> of the database, on the letters A to Z, and
  \<^verbatim>\<open>String.prototype.trim\<close>, on the white space of ASCII.
\<close>

definition lower_char :: "char \<Rightarrow> char" where
  "lower_char c =
     (let n = (of_char c :: nat) in if 65 \<le> n \<and> n \<le> 90 then char_of (n + 32) else c)"

definition LOWER :: "string \<Rightarrow> string" where
  "LOWER s = map lower_char s"

definition is_space :: "char \<Rightarrow> bool" where
  "is_space c = ((of_char c :: nat) \<in> set [9, 10, 11, 12, 13, 32])"

definition trim :: "string \<Rightarrow> string" where
  "trim s = rev (dropWhile is_space (rev (dropWhile is_space s)))"

definition skill_of :: "skill_row \<Rightarrow> skill" where
  "skill_of s =
     \<lparr>skill_id = s_id s, skill_name = s_name s, skill_status = s_status s,
      rejectionReason = s_rejection_reason s\<rparr>"

text \<open>\<^verbatim>\<open>SELECT ... FROM skills WHERE LOWER(name) = LOWER(:name)\<close>, first row.\<close>

definition getSkillByName :: "db \<Rightarrow> string \<Rightarrow> skill option" where
  "getSkillByName d n =
     (case filter (\<lambda>s. LOWER (s_name s) = LOWER n) (skills d) of
        [] \<Rightarrow> None
      | s # _ \<Rightarrow> Some (skill_of s))"

text \<open>
  \<^verbatim>\<open>INSERT INTO skills (id, name) VALUES (:id, :name)\<close>: the status takes its
  default \<^verbatim>\<open>'pending'\<close>. The constraints are the primary key and
  \<^verbatim>\<open>name VARCHAR2(100) UNIQUE NOT NULL\<close>; the database reads an empty string as
  \<^verbatim>\<open>NULL\<close>.
\<close>

definition insert_skill :: "db \<Rightarrow> string \<Rightarrow> string \<Rightarrow> error + db" where
  "insert_skill d i n =
     (if i \<in> set (map s_id (skills d)) then
        Inl (ConstraintViolation ''skills primary key'')
      else if n = [] then
        Inl (ConstraintViolation ''skills.name NOT NULL'')
      else if 100 < length n then
        Inl (ConstraintViolation ''skills.name VARCHAR2(100)'')
      else if n \<in> set (map s_name (skills d)) then
        Inl (ConstraintViolation ''skills.name UNIQUE'')
      else Inr (d\<lparr>skills := skills d @
                  [\<lparr>s_id = i, s_name = n, s_status = ''pending'', s_rejection_reason = None\<rparr>]\<rparr>))"

text \<open>
  \<^verbatim>\<open>exports.createSkill(name)\<close>; the second argument is the identifier
  \<^verbatim>\<open>crypto.randomUUID()\<close> gives.
\<close>

definition createSkill :: "db \<Rightarrow> string \<Rightarrow> string \<Rightarrow> db \<times> (error + skill)" where
  "createSkill d newId n =
     (case getSkillByName d n of
        Some existingSkill \<Rightarrow> (d, Inr existingSkill)
      | None \<Rightarrow>
          (case insert_skill d newId (trim n) of
             Inl e \<Rightarrow> (d, Inl e)
           | Inr d' \<Rightarrow>
               (d', Inr \<lparr>skill_id = newId, skill_name = trim n, skill_status = ''pending'',
                         rejectionReason = None\<rparr>)))"

text \<open>
  \<^verbatim>\<open>exports.getUserOfferedSkills(userId)\<close>: the join of
  \<^verbatim>\<open>user_skills_offered\<close> with \<^verbatim>\<open>skills\<close>, whatever the skill's status.
  The query's \<^verbatim>\<open>ORDER BY s.name\<close> is left out: its callers here ask only
  whether some element has a given identifier.
\<close>

definition getUserOfferedSkills :: "db \<Rightarrow> string \<Rightarrow> skill list" where
  "getUserOfferedSkills d uid =
     [\<lparr>skill_id = s_id s, skill_name = s_name s, skill_status = s_status s,
       rejectionReason = None\<rparr>.
      uso \<leftarrow> user_skills_offered d, uso_user_id uso = uid,
      s \<leftarrow> skills d, s_id s = uso_skill_id uso]"

section \<open>User model and authentication middleware\<close>

text \<open>
  \<^verbatim>\<open>exports.getUserById(id)\<close>: its query selects
  \<^verbatim>\<open>WHERE u.id = :id AND u.is_banned = 0\<close> and the function returns
  \<^verbatim>\<open>null\<close> when no row is found. The object it builds otherwise (profile, skills,
  feedback, average rating) is stood for by the row found: the swap controller tests
  the result for \<^verbatim>\<open>null\<close> only.
\<close>

definition getUserById :: "db \<Rightarrow> string \<Rightarrow> user_row option" where
  "getUserById d i =
     (case filter (\<lambda>u. u_id u = i \<and> \<not> u_is_banned u) (users d) of
        [] \<Rightarrow> None
      | u # _ \<Rightarrow> Some u)"

text \<open>
  \<^verbatim>\<open>UPDATE users SET is_banned = 1, ban_reason = :reason WHERE id = :id\<close>, the
  statement of \<^verbatim>\<open>banUser\<close> in the admin controller.
\<close>

definition ban_update :: "db \<Rightarrow> string \<Rightarrow> string \<Rightarrow> db" where
  "ban_update d i reason =
     d\<lparr>users := map (\<lambda>u. if u_id u = i
                           then u\<lparr>u_is_banned := True, u_ban_reason := Some reason\<rparr> else u)
                    (users d)\<rparr>"

text \<open>
  A response of a controller or of the middleware:
  \<^verbatim>\<open>res.status(n).json({success: true, data})\<close>,
  \<^verbatim>\<open>res.status(n).json({success: false, error})\<close> and
  \<^verbatim>\<open>res.status(400).json({success: false, errors: errors.array()})\<close>, where a
  validation error is stood for by its message.
\<close>

datatype 'a response = Ok nat 'a | Fail nat string | Invalid "string list"

record req_user =
  ru_id :: string
  ru_name :: string
  ru_email :: string
  ru_role :: string

text \<open>
  \<^verbatim>\<open>exports.protect\<close>. The token is given as the user identifier it decodes to,
  \<open>None\<close> for a request with no token or one that \<^verbatim>\<open>jwt.verify\<close> refuses.
  The result is the response sent, or \<^verbatim>\<open>req.user\<close> when \<^verbatim>\<open>next()\<close> is
  called.
\<close>

definition protect :: "db \<Rightarrow> string option \<Rightarrow> 'a response + req_user" where
  "protect d token =
     (case token of
        None \<Rightarrow> Inl (Fail 401 ''Not authorized to access this route'')
      | Some i \<Rightarrow>
          (case filter (\<lambda>u. u_id u = i) (users d) of
             [] \<Rightarrow> Inl (Fail 401 ''User not found'')
           | u # _ \<Rightarrow>
               if u_is_banned u then
                 Inl (Fail 403 ''Your account has been banned. Please contact support.'')
               else Inr \<lparr>ru_id = u_id u, ru_name = u_name u, ru_email = u_email u,
                         ru_role = u_role u\<rparr>))"

section \<open>Swap controller and routes\<close>

text \<open>\<^verbatim>\<open>err.message\<close> of what a model function has thrown.\<close>

definition err_message :: "error \<Rightarrow> string" where
  "err_message e = (case e of Error m \<Rightarrow> m | ConstraintViolation c \<Rightarrow> c)"

record create_body =
  b_receiverId :: string
  b_offeredSkillId :: string
  b_wantedSkillId :: string
  b_message :: "string option"

text \<open>
  The validation chains of \<^verbatim>\<open>router.post('/')\<close> and
  \<^verbatim>\<open>router.post('/:id/feedback')\<close> in \<^verbatim>\<open>routes/swap.routes.js\<close>:
  \<^verbatim>\<open>check(field, msg).not().isEmpty()\<close> on the three identifiers, and
  \<^verbatim>\<open>check('rating', msg).isInt({ min: 1, max: 5 })\<close>. The optional fields have no
  validator.
\<close>

definition create_validators :: "create_body \<Rightarrow> string list" where
  "create_validators b =
     (if b_receiverId b = [] then [''Receiver ID is required''] else []) @
     (if b_offeredSkillId b = [] then [''Offered skill ID is required''] else []) @
     (if b_wantedSkillId b = [] then [''Wanted skill ID is required''] else [])"

definition feedback_validators :: "int \<Rightarrow> string list" where
  "feedback_validators r =
     (if 1 \<le> r \<and> r \<le> 5 then [] else [''Rating is required and must be between 1 and 5''])"

text \<open>\<^verbatim>\<open>exports.createSwapRequest(req, res)\<close> of the swap controller.\<close>

definition ctl_createSwapRequest ::
  "db \<Rightarrow> req_user \<Rightarrow> string \<Rightarrow> create_body \<Rightarrow> db \<times> swap option response" where
  "ctl_createSwapRequest d user newId b =
     (if create_validators b \<noteq> [] then (d, Invalid (create_validators b))
      else if b_receiverId b = ru_id user then
        (d, Fail 400 ''You cannot create a swap request with yourself'')
      else case getUserById d (b_receiverId b) of
        None \<Rightarrow> (d, Fail 404 ''Receiver not found'')
      | Some receiver \<Rightarrow>
          if \<not> list_ex (\<lambda>sk. skill_id sk = b_offeredSkillId b)
                  (getUserOfferedSkills d (ru_id user)) then
            (d, Fail 400 ''Offered skill does not belong to you'')
          else if \<not> list_ex (\<lambda>sk. skill_id sk = b_wantedSkillId b)
                       (getUserOfferedSkills d (b_receiverId b)) then
            (d, Fail 400 ''Wanted skill does not belong to receiver'')
          else
            (case createSwapRequest d newId
                    \<lparr>sd_senderId = ru_id user, sd_receiverId = b_receiverId b,
                     sd_offeredSkillId = b_offeredSkillId b,
                     sd_wantedSkillId = b_wantedSkillId b, sd_message = b_message b\<rparr> of
               (d', Inl e) \<Rightarrow> (d', Fail 500 ''Server error'')
             | (d', Inr swapRequest) \<Rightarrow> (d', Ok 201 swapRequest)))"

text \<open>
  \<^verbatim>\<open>router.post('/', [...], protect, createSwapRequest)\<close>: the middleware answers
  first, the controller only when it has set \<^verbatim>\<open>req.user\<close>.
\<close>

definition post_swaps ::
  "db \<Rightarrow> string option \<Rightarrow> string \<Rightarrow> create_body \<Rightarrow> db \<times> swap option response" where
  "post_swaps d token newId b =
     (case protect d token of
        Inl r \<Rightarrow> (d, r)
      | Inr user \<Rightarrow> ctl_createSwapRequest d user newId b)"

text \<open>\<^verbatim>\<open>exports.addFeedback(req, res)\<close> of the swap controller.\<close>

definition ctl_addFeedback ::
  "db \<Rightarrow> req_user \<Rightarrow> string \<Rightarrow> string \<Rightarrow> int \<Rightarrow> string option \<Rightarrow> db \<times> feedback_obj response" where
  "ctl_addFeedback d user newId i r c =
     (if feedback_validators r \<noteq> [] then (d, Invalid (feedback_validators r))
      else case addFeedback d newId i (ru_id user) r c of
        (d', Inl e) \<Rightarrow> (d', Fail 400 (err_message e))
      | (d', Inr fb) \<Rightarrow> (d', Ok 201 fb))"

section \<open>Runs of the ledger\<close>

text \<open>The four statuses that \<^verbatim>\<open>updateSwapRequestStatus\<close> lets through.\<close>

definition valid_statuses :: "db \<Rightarrow> bool" where
  "valid_statuses d =
     list_all (\<lambda>sr. sr_status sr \<in> set [''pending'', ''accepted'', ''rejected'', ''completed''])
       (swap_requests d)"

text \<open>The status of a swap as \<^verbatim>\<open>getSwapRequestById\<close> reports it.\<close>

definition status_of :: "db \<Rightarrow> string \<Rightarrow> string option" where
  "status_of d i = map_option status (getSwapRequestById d i)"

text \<open>
  A call of one of the operations that write to the database, and the database it
  leaves behind. A run is a list of calls, each on what the one before has left.
\<close>

datatype call =
    PostSwaps "string option" string create_body
  | CreateSwapRequest string swapData
  | UpdateSwapRequestStatus string string string
  | AcceptSwapRequest string string
  | RejectSwapRequest string string
  | CompleteSwapRequest string string
  | DeleteSwapRequest string string
  | AddFeedback string string string int "string option"
  | CreateSkill string string
  | BanUpdate string string

fun exec :: "db \<Rightarrow> call \<Rightarrow> db" where
  "exec d (PostSwaps token newId b) = fst (post_swaps d token newId b)"
| "exec d (CreateSwapRequest newId sd) = fst (createSwapRequest d newId sd)"
| "exec d (UpdateSwapRequestStatus i st uid) = fst (updateSwapRequestStatus d i st uid)"
| "exec d (AcceptSwapRequest i uid) = fst (acceptSwapRequest d i uid)"
| "exec d (RejectSwapRequest i uid) = fst (rejectSwapRequest d i uid)"
| "exec d (CompleteSwapRequest i uid) = fst (completeSwapRequest d i uid)"
| "exec d (DeleteSwapRequest i uid) = fst (deleteSwapRequest d i uid)"
| "exec d (AddFeedback newId i uid r c) = fst (addFeedback d newId i uid r c)"
| "exec d (CreateSkill newId n) = fst (createSkill d newId n)"
| "exec d (BanUpdate i reason) = ban_update d i reason"

definition run :: "db \<Rightarrow> call list \<Rightarrow> db" where
  "run d cs = foldl exec d cs"

section \<open>A small database\<close>

text \<open>
  Alice, Bob and Carol, and Dave who is banned. Guitar and Spanish are approved skills,
  Knitting is still pending. Alice offers Guitar and Knitting, Bob and Dave offer
  Spanish. Alice has sent Bob four requests, one in each status.
\<close>

definition mk_user :: "string \<Rightarrow> string \<Rightarrow> bool \<Rightarrow> user_row" where
  "mk_user i n banned =
     \<lparr>u_id = i, u_name = n, u_email = n @ ''@example.org'', u_profile_photo = None,
      u_is_public = True, u_is_banned = banned,
      u_ban_reason = (if banned then Some ''spam'' else None), u_role = ''user''\<rparr>"

definition mk_swap_row :: "string \<Rightarrow> string \<Rightarrow> swap_row" where
  "mk_swap_row i st =
     \<lparr>sr_id = i, sr_sender_id = ''u1'', sr_receiver_id = ''u2'',
      sr_offered_skill_id = ''k1'', sr_wanted_skill_id = ''k2'',
      sr_message = None, sr_status = st\<rparr>"

definition db0 :: db where
  "db0 =
     \<lparr>users = [mk_user ''u1'' ''Alice'' False, mk_user ''u2'' ''Bob'' False,
               mk_user ''u3'' ''Carol'' False, mk_user ''u4'' ''Dave'' True],
      skills = [\<lparr>s_id = ''k1'', s_name = ''Guitar'', s_status = ''approved'',
                 s_rejection_reason = None\<rparr>,
                \<lparr>s_id = ''k2'', s_name = ''Spanish'', s_status = ''approved'',
                 s_rejection_reason = None\<rparr>,
                \<lparr>s_id = ''k3'', s_name = ''Knitting'', s_status = ''pending'',
                 s_rejection_reason = None\<rparr>],
      user_skills_offered =
        [\<lparr>uso_id = ''o1'', uso_user_id = ''u1'', uso_skill_id = ''k1''\<rparr>,
         \<lparr>uso_id = ''o2'', uso_user_id = ''u1'', uso_skill_id = ''k3''\<rparr>,
         \<lparr>uso_id = ''o3'', uso_user_id = ''u2'', uso_skill_id = ''k2''\<rparr>,
         \<lparr>uso_id = ''o4'', uso_user_id = ''u4'', uso_skill_id = ''k2''\<rparr>],
      swap_requests = [mk_swap_row ''r1'' ''pending'', mk_swap_row ''r2'' ''rejected'',
                       mk_swap_row ''r3'' ''accepted'', mk_swap_row ''r4'' ''completed''],
      feedback = []\<rparr>"

definition mk_swap :: "string \<Rightarrow> string \<Rightarrow> swap" where
  "mk_swap i st =
     \<lparr>swap_id = i, senderId = ''u1'', senderName = ''Alice'', senderPhoto = None,
      receiverId = ''u2'', receiverName = ''Bob'', receiverPhoto = None,
      offeredSkillId = ''k1'', offeredSkillName = ''Guitar'',
      wantedSkillId = ''k2'', wantedSkillName = ''Spanish'',
      message = None, status = st, swap_feedback = []\<rparr>"

definition alice :: req_user where
  "alice = \<lparr>ru_id = ''u1'', ru_name = ''Alice'', ru_email = ''Alice@example.org'',
            ru_role = ''user''\<rparr>"

text \<open>
  Two bodies of \<^verbatim>\<open>POST /api/swaps\<close>: Knitting, which is pending, offered to Bob
  for Spanish; and Guitar offered to Dave for Spanish.
\<close>

definition knitting_for_spanish :: create_body where
  "knitting_for_spanish =
     \<lparr>b_receiverId = ''u2'', b_offeredSkillId = ''k3'', b_wantedSkillId = ''k2'',
      b_message = None\<rparr>"

definition guitar_to_dave :: create_body where
  "guitar_to_dave =
     \<lparr>b_receiverId = ''u4'', b_offeredSkillId = ''k1'', b_wantedSkillId = ''k2'',
      b_message = None\<rparr>"

section \<open>Facts about the queries\<close>

lemma users_update_status: "users (update_status d i st) = users d"
  and skills_update_status: "skills (update_status d i st) = skills d"
  and feedback_update_status: "feedback (update_status d i st) = feedback d"
  and swap_requests_update_status:
    "swap_requests (update_status d i st) =
       map (\<lambda>sr. if sr_id sr = i then sr\<lparr>sr_status := st\<rparr> else sr) (swap_requests d)"
  by (simp_all add: update_status_def)

lemma feedback_of_swap_update_status:
  "feedback_of_swap (update_status d i st) j = feedback_of_swap d j"
  by (simp add: feedback_of_swap_def users_update_status feedback_update_status cong: if_cong)

lemma swap_join_set_status:
  "swap_join d (sr\<lparr>sr_status := st\<rparr>) = map (\<lambda>s. s\<lparr>status := st\<rparr>) (swap_join d sr)"
  by (simp add: swap_join_def map_concat comp_def if_distrib cong: if_cong)

lemma swap_join_update_status: "swap_join (update_status d i st) sr = swap_join d sr"
  by (simp add: swap_join_def users_update_status skills_update_status
      feedback_of_swap_update_status cong: if_cong)

lemma swap_rows_update_status:
  "swap_rows (update_status d i st) j =
     (if j = i then map (\<lambda>s. s\<lparr>status := st\<rparr>) (swap_rows d j) else swap_rows d j)"
proof -
  have "concat (map (swap_join (update_status d i st))
           (filter (\<lambda>sr. sr_id sr = j)
              (map (\<lambda>sr. if sr_id sr = i then sr\<lparr>sr_status := st\<rparr> else sr) xs))) =
        (if j = i
         then map (\<lambda>s. s\<lparr>status := st\<rparr>)
                (concat (map (swap_join d) (filter (\<lambda>sr. sr_id sr = j) xs)))
         else concat (map (swap_join d) (filter (\<lambda>sr. sr_id sr = j) xs)))" for xs
    by (induction xs) (auto simp: swap_join_set_status swap_join_update_status)
  then show ?thesis
    by (simp only: swap_rows_def swap_requests_update_status)
qed

text \<open>
  After the update the swap reads as before, but for the status when it is the swap
  updated.
\<close>

lemma getSwapRequestById_update_status:
  "getSwapRequestById (update_status d i st) j =
     (if j = i then map_option (\<lambda>s. s\<lparr>status := st\<rparr>) (getSwapRequestById d j)
      else getSwapRequestById d j)"
  by (simp add: getSwapRequestById_def swap_rows_update_status split: list.splits)

text \<open>What a swap that was read says about the tables.\<close>

lemma swap_join_fields:
  assumes "sw \<in> set (swap_join d sr)"
  shows "swap_id sw = sr_id sr \<and> senderId sw = sr_sender_id sr \<and>
         receiverId sw = sr_receiver_id sr \<and> status sw = sr_status sr \<and>
         offeredSkillId sw = sr_offered_skill_id sr \<and>
         wantedSkillId sw = sr_wanted_skill_id sr \<and>
         sr_sender_id sr \<in> set (map u_id (users d)) \<and>
         sr_receiver_id sr \<in> set (map u_id (users d))"
  using assms by (auto simp: swap_join_def split: if_splits intro: image_eqI [OF sym])

lemma getSwapRequestById_row:
  assumes "getSwapRequestById d i = Some sw"
  obtains sr where "sr \<in> set (swap_requests d)" and "sr_id sr = i"
    and "sw \<in> set (swap_join d sr)"
proof -
  from assms have "sw \<in> set (swap_rows d i)"
    by (auto simp: getSwapRequestById_def split: list.splits)
  then show thesis
    using that by (auto simp: swap_rows_def)
qed

lemma getSwapRequestById_facts:
  assumes "getSwapRequestById d i = Some sw"
  shows "swap_id sw = i"
    and "i \<in> set (map sr_id (swap_requests d))"
    and "senderId sw \<in> set (map u_id (users d))"
    and "receiverId sw \<in> set (map u_id (users d))"
proof -
  obtain sr where sr: "sr \<in> set (swap_requests d)" "sr_id sr = i" "sw \<in> set (swap_join d sr)"
    using assms by (rule getSwapRequestById_row)
  note f = swap_join_fields [OF sr(3)]
  show "swap_id sw = i" using f sr(2) by simp
  show "i \<in> set (map sr_id (swap_requests d))" using sr(1,2) by auto
  show "senderId sw \<in> set (map u_id (users d))" using f by simp
  show "receiverId sw \<in> set (map u_id (users d))" using f by simp
qed

section \<open>Facts about the status update\<close>

text \<open>
  \<^verbatim>\<open>updateSwapRequestStatus\<close> on a swap that exists, case by case. The status
  the swap has does not occur on the right.
\<close>

lemma updateSwapRequestStatus_found:
  assumes "getSwapRequestById d i = Some sw"
  shows "updateSwapRequestStatus d i st uid =
     (case status_checks d i st uid of
        Some e \<Rightarrow> (d, Inl e)
      | None \<Rightarrow> (update_status d i st, Inr (Some (sw\<lparr>status := st\<rparr>))))"
  using assms
  by (simp add: updateSwapRequestStatus_def status_write_def Let_def
      getSwapRequestById_update_status split: option.splits)

lemma status_of_update_status:
  "status_of (update_status d i st) j =
     (if j = i then map_option (\<lambda>_. st) (status_of d j) else status_of d j)"
  by (simp add: status_of_def getSwapRequestById_update_status option.map_comp comp_def)

lemma valid_statuses_update_status:
  assumes "valid_statuses d"
    and "st \<in> set [''pending'', ''accepted'', ''rejected'', ''completed'']"
  shows "valid_statuses (update_status d i st)"
  using assms
  by (auto simp: valid_statuses_def swap_requests_update_status list_all_iff)

lemma status_checks_valid:
  "status_checks d i st uid = None \<Longrightarrow>
     st \<in> set [''pending'', ''accepted'', ''rejected'', ''completed'']"
  by (simp add: status_checks_def split: if_splits)

lemma valid_statuses_updateSwapRequestStatus:
  assumes "valid_statuses d"
  shows "valid_statuses (fst (updateSwapRequestStatus d i st uid))"
proof (cases "status_checks d i st uid")
  case None
  then show ?thesis
    using assms valid_statuses_update_status [OF assms status_checks_valid [OF None]]
    by (simp add: updateSwapRequestStatus_def status_write_def Let_def)
next
  case (Some e)
  then show ?thesis
    using assms by (simp add: updateSwapRequestStatus_def)
qed

lemma status_checks_update_status:
  "status_checks (update_status d j st') i st uid = status_checks d i st uid"
  by (auto simp: status_checks_def getSwapRequestById_update_status split: option.splits)

lemma status_checks_found:
  assumes "getSwapRequestById d i = Some sw"
  shows "status_checks d i st uid = None \<longleftrightarrow>
     st \<in> set [''pending'', ''accepted'', ''rejected'', ''completed''] \<and>
     (uid = receiverId sw \<or> uid = senderId sw \<and> st \<noteq> ''accepted'' \<and> st \<noteq> ''rejected'')"
  using assms by (auto simp: status_checks_def)

lemma status_of_found:
  assumes "getSwapRequestById d i = Some sw"
  shows "status_of d i = Some (status sw)"
    and "status_of (update_status d i st) i = Some st"
  using assms by (simp_all add: status_of_def getSwapRequestById_update_status)

section \<open>Facts about the other writes\<close>

lemma swap_requests_insert_swap_request:
  "insert_swap_request d r = Inr d' \<Longrightarrow> swap_requests d' = swap_requests d @ [r]"
  by (auto simp: insert_swap_request_def split: if_splits)

lemma valid_statuses_createSwapRequest:
  assumes "valid_statuses d"
  shows "valid_statuses (fst (createSwapRequest d newId sd))"
  using assms
  by (auto simp: createSwapRequest_def valid_statuses_def
      dest!: swap_requests_insert_swap_request split: sum.splits)

lemma fst_ctl_createSwapRequest:
  "fst (ctl_createSwapRequest d user newId b) = d \<or>
   fst (ctl_createSwapRequest d user newId b) =
     fst (createSwapRequest d newId
            \<lparr>sd_senderId = ru_id user, sd_receiverId = b_receiverId b,
             sd_offeredSkillId = b_offeredSkillId b,
             sd_wantedSkillId = b_wantedSkillId b, sd_message = b_message b\<rparr>)"
  by (auto simp: ctl_createSwapRequest_def split: option.splits prod.splits sum.splits)

lemma valid_statuses_post_swaps:
  assumes "valid_statuses d"
  shows "valid_statuses (fst (post_swaps d token newId b))"
proof (cases "protect d token :: swap option response + req_user")
  case (Inl r)
  then show ?thesis using assms by (simp add: post_swaps_def)
next
  case (Inr user)
  then have "fst (post_swaps d token newId b) = fst (ctl_createSwapRequest d user newId b)"
    by (simp add: post_swaps_def)
  then show ?thesis
    using assms fst_ctl_createSwapRequest [of d user newId b]
      valid_statuses_createSwapRequest [OF assms]
    by auto
qed

lemma valid_statuses_deleteSwapRequest:
  assumes "valid_statuses d"
  shows "valid_statuses (fst (deleteSwapRequest d i uid))"
  using assms
  by (auto simp: deleteSwapRequest_def delete_swap_request_def valid_statuses_def
      list_all_iff split: option.splits)

lemma insert_feedback_tables:
  assumes "insert_feedback d r = Inr d'"
  shows "swap_requests d' = swap_requests d" and "users d' = users d"
    and "skills d' = skills d" and "feedback d' = feedback d @ [r]"
  using assms by (auto simp: insert_feedback_def split: if_splits)

lemma swap_requests_addFeedback:
  "swap_requests (fst (addFeedback d newId i uid r c)) = swap_requests d"
  by (auto simp: addFeedback_def dest: insert_feedback_tables(1)
      split: option.splits sum.splits list.splits)

lemma swap_requests_createSkill:
  "swap_requests (fst (createSkill d newId n)) = swap_requests d"
  by (auto simp: createSkill_def insert_skill_def split: option.splits sum.splits if_splits)

lemma valid_statuses_exec:
  assumes "valid_statuses d"
  shows "valid_statuses (exec d c)"
proof (cases c)
  case (AddFeedback newId i uid r c')
  then show ?thesis
    using assms by (simp add: valid_statuses_def swap_requests_addFeedback)
next
  case (CreateSkill newId n)
  then show ?thesis
    using assms by (simp add: valid_statuses_def swap_requests_createSkill)
next
  case (BanUpdate i reason)
  then show ?thesis
    using assms by (simp add: valid_statuses_def ban_update_def)
qed (simp_all add: assms valid_statuses_post_swaps valid_statuses_createSwapRequest
    valid_statuses_updateSwapRequestStatus valid_statuses_deleteSwapRequest
    acceptSwapRequest_def rejectSwapRequest_def completeSwapRequest_def)

lemma valid_statuses_run:
  "valid_statuses d \<Longrightarrow> valid_statuses (run d cs)"
  unfolding run_def
  by (induction cs arbitrary: d) (simp_all add: valid_statuses_exec)

section \<open>The small database, read\<close>

lemma db0_r1: "getSwapRequestById db0 ''r1'' = Some (mk_swap ''r1'' ''pending'')"
  and db0_r2: "getSwapRequestById db0 ''r2'' = Some (mk_swap ''r2'' ''rejected'')"
  and db0_r3: "getSwapRequestById db0 ''r3'' = Some (mk_swap ''r3'' ''accepted'')"
  and db0_r4: "getSwapRequestById db0 ''r4'' = Some (mk_swap ''r4'' ''completed'')"
  by code_simp+

lemma db0_valid: "valid_statuses db0"
  by code_simp

lemma mk_swap_sel:
  "senderId (mk_swap i st) = ''u1''" "receiverId (mk_swap i st) = ''u2''"
  "status (mk_swap i st) = st" "swap_id (mk_swap i st) = i"
  "(mk_swap i st)\<lparr>status := st'\<rparr> = mk_swap i st'"
  by (simp_all add: mk_swap_def)

section \<open>Facts about feedback\<close>

text \<open>A new feedback row changes what a swap reads as only in its feedback list.\<close>

lemma swap_join_feedback_only:
  assumes "users d' = users d" and "skills d' = skills d"
  shows "swap_join d' sr =
     map (\<lambda>s. s\<lparr>swap_feedback := feedback_of_swap d' (sr_id sr)\<rparr>) (swap_join d sr)"
  by (simp add: swap_join_def assms map_concat comp_def if_distrib cong: if_cong)

lemma getSwapRequestById_feedback_only:
  assumes "users d' = users d" and "skills d' = skills d"
    and "swap_requests d' = swap_requests d"
  shows "getSwapRequestById d' i =
     map_option (\<lambda>s. s\<lparr>swap_feedback := feedback_of_swap d' i\<rparr>) (getSwapRequestById d i)"
proof -
  have "concat (map (swap_join d') (filter (\<lambda>sr. sr_id sr = i) xs)) =
        map (\<lambda>s. s\<lparr>swap_feedback := feedback_of_swap d' i\<rparr>)
          (concat (map (swap_join d) (filter (\<lambda>sr. sr_id sr = i) xs)))" for xs
    by (induction xs) (simp_all add: swap_join_feedback_only [OF assms(1,2)])
  then have "swap_rows d' i =
      map (\<lambda>s. s\<lparr>swap_feedback := feedback_of_swap d' i\<rparr>) (swap_rows d i)"
    by (simp add: swap_rows_def assms(3))
  then show ?thesis
    by (simp add: getSwapRequestById_def split: list.splits)
qed

text \<open>The three checks of \<^verbatim>\<open>addFeedback\<close> that a swap read must pass.\<close>

lemma addFeedback_found:
  assumes "getSwapRequestById d i = Some sw"
  shows "addFeedback d newId i uid r c =
     (if senderId sw \<noteq> uid \<and> receiverId sw \<noteq> uid then
        (d, Inl (Error ''Only participants can add feedback''))
      else if status sw \<noteq> ''completed'' then
        (d, Inl (Error ''Feedback can only be added to completed swaps''))
      else if filter (\<lambda>f. f_swap_id f = i \<and> f_user_id f = uid) (feedback d) \<noteq> [] then
        (d, Inl (Error ''You have already left feedback for this swap''))
      else
        (case insert_feedback d
                \<lparr>f_id = newId, f_swap_id = i, f_user_id = uid, f_rating = r, f_comment = c\<rparr> of
           Inl e \<Rightarrow> (d, Inl e)
         | Inr d' \<Rightarrow>
             (case [feedback_obj_of f u. f \<leftarrow> feedback d', f_id f = newId,
                                          u \<leftarrow> users d', u_id u = f_user_id f] of
                [] \<Rightarrow> (d', Inl (Error ''Error retrieving created feedback''))
              | fb # _ \<Rightarrow> (d', Inr fb))))"
  using assms by (simp add: addFeedback_def)

lemma addFeedback_checked:
  assumes "getSwapRequestById d i = Some sw" and "uid = senderId sw \<or> uid = receiverId sw"
    and "status sw = ''completed''"
    and "filter (\<lambda>f. f_swap_id f = i \<and> f_user_id f = uid) (feedback d) = []"
  shows "addFeedback d newId i uid r c =
     (case insert_feedback d
             \<lparr>f_id = newId, f_swap_id = i, f_user_id = uid, f_rating = r, f_comment = c\<rparr> of
        Inl e \<Rightarrow> (d, Inl e)
      | Inr d' \<Rightarrow>
          (case [feedback_obj_of f u. f \<leftarrow> feedback d', f_id f = newId,
                                       u \<leftarrow> users d', u_id u = f_user_id f] of
             [] \<Rightarrow> (d', Inl (Error ''Error retrieving created feedback''))
           | fb # _ \<Rightarrow> (d', Inr fb)))"
proof -
  have "\<not> (senderId sw \<noteq> uid \<and> receiverId sw \<noteq> uid)"
    using assms(2) by auto
  then show ?thesis
    unfolding addFeedback_found [OF assms(1)]
    by (simp only: if_False assms(3,4) not_False_eq_True simp_thms)
qed

lemma insert_feedback_Inr:
  "insert_feedback d r = Inr d' \<longleftrightarrow>
     d' = d\<lparr>feedback := feedback d @ [r]\<rparr> \<and>
     1 \<le> f_rating r \<and> f_rating r \<le> 5 \<and>
     f_id r \<notin> set (map f_id (feedback d)) \<and>
     (f_user_id r, f_swap_id r) \<notin> set (map (\<lambda>f. (f_user_id f, f_swap_id f)) (feedback d)) \<and>
     f_swap_id r \<in> set (map sr_id (swap_requests d)) \<and>
     f_user_id r \<in> set (map u_id (users d)) \<and>
     \<not> (case f_comment r of None \<Rightarrow> False | Some c \<Rightarrow> 500 < length c)"
  by (auto simp: insert_feedback_def)

text \<open>The row just inserted is found again when its author is a user.\<close>

lemma created_feedback_found:
  assumes "uid \<in> set (map u_id us)"
  shows "[feedback_obj_of f u. f \<leftarrow> fs @ [\<lparr>f_id = newId, f_swap_id = i, f_user_id = uid,
                                             f_rating = r, f_comment = c\<rparr>],
            f_id f = newId, u \<leftarrow> us, u_id u = f_user_id f] \<noteq> []"
proof -
  obtain u where "u \<in> set us" and "u_id u = uid"
    using assms by auto
  then have "filter (\<lambda>u. u_id u = uid) us \<noteq> []"
    by (auto simp: filter_empty_conv)
  then have "concat (map (\<lambda>u. if u_id u = uid then [feedback_obj_of
       \<lparr>f_id = newId, f_swap_id = i, f_user_id = uid, f_rating = r, f_comment = c\<rparr> u] else []) us) \<noteq> []"
    by (induction us) auto
  then show ?thesis by simp
qed

text \<open>A call of \<^verbatim>\<open>addFeedback\<close> that returns has written one row.\<close>

lemma addFeedback_success:
  assumes "addFeedback d newId i uid r c = (d', Inr fb)"
  obtains sw where "getSwapRequestById d i = Some sw"
    and "senderId sw = uid \<or> receiverId sw = uid" and "status sw = ''completed''"
    and "d' = d\<lparr>feedback := feedback d @
            [\<lparr>f_id = newId, f_swap_id = i, f_user_id = uid, f_rating = r, f_comment = c\<rparr>]\<rparr>"
    and "1 \<le> r \<and> r \<le> 5"
proof (cases "getSwapRequestById d i")
  case None
  then show thesis using assms by (simp add: addFeedback_def)
next
  case (Some sw)
  from assms show thesis
    unfolding addFeedback_found [OF Some]
    by (auto simp: insert_feedback_Inr split: if_splits sum.splits list.splits
        intro!: that [OF Some])
qed

lemma addFeedback_out_of_range:
  assumes "\<not> (1 \<le> r \<and> r \<le> 5)"
  shows "isl (snd (addFeedback d newId i uid r c)) \<and> fst (addFeedback d newId i uid r c) = d"
proof (cases "getSwapRequestById d i")
  case None
  then show ?thesis by (simp add: addFeedback_def)
next
  case (Some sw)
  have "insert_feedback d \<lparr>f_id = newId, f_swap_id = i, f_user_id = uid, f_rating = r, f_comment = c\<rparr>
      = Inl (ConstraintViolation ''feedback.rating CHECK (rating BETWEEN 1 AND 5)'')"
    using assms by (simp add: insert_feedback_def)
  then show ?thesis
    by (simp add: addFeedback_found [OF Some])
qed

section \<open>Creating a swap request\<close>

lemma offered_skill_exists:
  assumes "list_ex (\<lambda>sk. skill_id sk = k) (getUserOfferedSkills d uid)"
  shows "k \<in> set (map s_id (skills d))"
  using assms
  by (auto simp: getUserOfferedSkills_def list_ex_iff split: if_splits intro: image_eqI [OF sym])

lemma getUserById_Some_user:
  "getUserById d i = Some u \<Longrightarrow> i \<in> set (map u_id (users d))"
proof -
  assume "getUserById d i = Some u"
  then obtain rest where "filter (\<lambda>u. u_id u = i \<and> \<not> u_is_banned u) (users d) = u # rest"
    by (auto simp: getUserById_def split: list.splits)
  then have "u \<in> set (filter (\<lambda>u. u_id u = i \<and> \<not> u_is_banned u) (users d))"
    by simp
  then show ?thesis by auto
qed

lemma getUserById_banned:
  assumes "\<forall>u \<in> set (users d). u_id u = i \<longrightarrow> u_is_banned u"
  shows "getUserById d i = None"
proof -
  have "filter (\<lambda>u. u_id u = i \<and> \<not> u_is_banned u) (users d) = []"
    using assms by (auto simp: filter_empty_conv)
  then show ?thesis by (simp add: getUserById_def)
qed

lemma protect_Inr:
  assumes "protect d token = (Inr user :: 'a response + req_user)"
  obtains u where "u \<in> set (users d)" and "u_id u = ru_id user" and "\<not> u_is_banned u"
    and "token = Some (ru_id user)"
proof -
  from assms obtain i where t: "token = Some i"
    by (cases token) (auto simp: protect_def)
  from assms t obtain u rest where f: "filter (\<lambda>u. u_id u = i) (users d) = u # rest"
    and nb: "\<not> u_is_banned u" and ru: "ru_id user = u_id u"
    by (auto simp: protect_def split: list.splits if_splits)
  have "u \<in> set (filter (\<lambda>u. u_id u = i) (users d))"
    by (simp add: f)
  then have "u \<in> set (users d)" and "u_id u = i" by auto
  then show thesis
    using that nb ru t by simp
qed

lemma protect_banned:
  assumes "i \<in> set (map u_id (users d))"
    and "\<forall>u \<in> set (users d). u_id u = i \<longrightarrow> u_is_banned u"
  shows "protect d (Some i) =
    (Inl (Fail 403 ''Your account has been banned. Please contact support.'')
       :: 'a response + req_user)"
proof -
  from assms(1) have "filter (\<lambda>u. u_id u = i) (users d) \<noteq> []"
    by (auto simp: filter_empty_conv)
  then obtain u rest where f: "filter (\<lambda>u. u_id u = i) (users d) = u # rest"
    by (cases "filter (\<lambda>u. u_id u = i) (users d)") auto
  have "u \<in> set (filter (\<lambda>u. u_id u = i) (users d))"
    by (simp add: f)
  then have "u_is_banned u"
    using assms(2) by auto
  then show ?thesis
    by (simp add: protect_def f)
qed

text \<open>The ban changes no column that a swap is read from.\<close>

lemma ban_update_tables:
  "swap_requests (ban_update d i reason) = swap_requests d"
  "skills (ban_update d i reason) = skills d"
  "feedback (ban_update d i reason) = feedback d"
  "user_skills_offered (ban_update d i reason) = user_skills_offered d"
  "users (ban_update d i reason) =
     map (\<lambda>u. if u_id u = i then u\<lparr>u_is_banned := True, u_ban_reason := Some reason\<rparr> else u)
       (users d)"
  by (simp_all add: ban_update_def)

lemma concat_map_ban:
  assumes "\<And>u. f (if u_id u = i then u\<lparr>u_is_banned := True, u_ban_reason := Some reason\<rparr> else u) = f u"
  shows "concat (map f (users (ban_update d i reason))) = concat (map f (users d))"
  by (simp add: ban_update_tables(5) comp_def assms)

lemma feedback_of_swap_ban_update:
  "feedback_of_swap (ban_update d i reason) j = feedback_of_swap d j"
proof -
  have "concat (map (\<lambda>u. if u_id u = f_user_id f then [feedback_obj_of f u] else [])
          (users (ban_update d i reason))) =
        concat (map (\<lambda>u. if u_id u = f_user_id f then [feedback_obj_of f u] else []) (users d))"
    for f
    by (rule concat_map_ban) (simp add: feedback_obj_of_def)
  then show ?thesis
    by (simp add: feedback_of_swap_def ban_update_tables(3) cong: if_cong)
qed

lemma swap_join_ban_update:
  "swap_join (ban_update d i reason) sr = swap_join d sr"
proof -
  let ?d = "ban_update d i reason"
  let ?inner = "\<lambda>db sender receiver.
      concat (map (\<lambda>offered. if s_id offered = sr_offered_skill_id sr then
        concat (map (\<lambda>wanted. if s_id wanted = sr_wanted_skill_id sr then
          [\<lparr>swap_id = sr_id sr,
            senderId = sr_sender_id sr, senderName = u_name sender,
            senderPhoto = u_profile_photo sender,
            receiverId = sr_receiver_id sr, receiverName = u_name receiver,
            receiverPhoto = u_profile_photo receiver,
            offeredSkillId = sr_offered_skill_id sr, offeredSkillName = s_name offered,
            wantedSkillId = sr_wanted_skill_id sr, wantedSkillName = s_name wanted,
            message = sr_message sr, status = sr_status sr,
            swap_feedback = feedback_of_swap db (sr_id sr)\<rparr>] else []) (skills db))
        else []) (skills db))"
  let ?mid = "\<lambda>db sender. concat (map (\<lambda>receiver.
      if u_id receiver = sr_receiver_id sr then ?inner db sender receiver else []) (users db))"
  have inner: "?inner ?d s r = ?inner d s r" for s r
    by (simp add: ban_update_tables(2) feedback_of_swap_ban_update cong: if_cong)
  have mid: "?mid ?d s = ?mid d s" for s
    unfolding inner by (rule concat_map_ban) (simp cong: if_cong)
  have mid': "?mid d (if u_id u = i then u\<lparr>u_is_banned := True, u_ban_reason := Some reason\<rparr> else u)
      = ?mid d u" for u
    by (simp cong: if_cong)
  have "concat (map (\<lambda>sender. if u_id sender = sr_sender_id sr then ?mid ?d sender else [])
          (users ?d)) =
        concat (map (\<lambda>sender. if u_id sender = sr_sender_id sr then ?mid d sender else [])
          (users d))"
    unfolding mid by (rule concat_map_ban) (simp add: mid' cong: if_cong)
  then show ?thesis
    by (simp add: swap_join_def)
qed

lemma getSwapRequestById_ban_update:
  "getSwapRequestById (ban_update d i reason) j = getSwapRequestById d j"
proof -
  have "swap_join (ban_update d i reason) = swap_join d"
    by (rule ext) (rule swap_join_ban_update)
  then show ?thesis
    by (simp add: getSwapRequestById_def swap_rows_def ban_update_tables(1))
qed

section \<open>The state machine of a swap request\<close>

text \<open>
  Claim C1, as amended. The status of every swap request is always one of pending,
  accepted, rejected and completed: a database in which it is so, the empty one to
  begin with, stays so under every run of the ledger's operations. But no status is
  terminal. On a swap that exists, whatever its status (rejected and completed
  included), \<^verbatim>\<open>updateSwapRequestStatus\<close> fails only for a status outside the
  four, for an actor who is neither sender nor receiver, and for an accept or reject
  by the sender; it then leaves the database as it was. In every other case it
  succeeds and overwrites the status: the receiver's accept and reject and either
  participant's complete go through from rejected and from completed.
\<close>

theorem status_valid_and_never_terminal:
  "(valid_statuses d \<longrightarrow> valid_statuses (run d cs)) \<and>
   (getSwapRequestById d i = Some sw \<longrightarrow>
      updateSwapRequestStatus d i st uid =
        (if st \<notin> set [''pending'', ''accepted'', ''rejected'', ''completed''] then
           (d, Inl invalid_status)
         else if senderId sw \<noteq> uid \<and> receiverId sw \<noteq> uid then
           (d, Inl (Error ''Not authorized to update this swap request''))
         else if (st = ''accepted'' \<or> st = ''rejected'') \<and> receiverId sw \<noteq> uid then
           (d, Inl (Error ''Only the receiver can accept or reject a swap request''))
         else (update_status d i st, Inr (Some (sw\<lparr>status := st\<rparr>)))) \<and>
      acceptSwapRequest d i (receiverId sw) =
        (update_status d i ''accepted'', Inr (Some (sw\<lparr>status := ''accepted''\<rparr>))) \<and>
      rejectSwapRequest d i (receiverId sw) =
        (update_status d i ''rejected'', Inr (Some (sw\<lparr>status := ''rejected''\<rparr>))) \<and>
      completeSwapRequest d i (senderId sw) =
        (update_status d i ''completed'', Inr (Some (sw\<lparr>status := ''completed''\<rparr>))) \<and>
      status_of (update_status d i st) i = Some st)"
proof (rule conjI; rule impI)
  assume "valid_statuses d"
  then show "valid_statuses (run d cs)"
    by (rule valid_statuses_run)
next
  assume sw: "getSwapRequestById d i = Some sw"
  have upd: "updateSwapRequestStatus d i st' uid' =
      (if st' \<notin> set [''pending'', ''accepted'', ''rejected'', ''completed''] then
         (d, Inl invalid_status)
       else if senderId sw \<noteq> uid' \<and> receiverId sw \<noteq> uid' then
         (d, Inl (Error ''Not authorized to update this swap request''))
       else if (st' = ''accepted'' \<or> st' = ''rejected'') \<and> receiverId sw \<noteq> uid' then
         (d, Inl (Error ''Only the receiver can accept or reject a swap request''))
       else (update_status d i st', Inr (Some (sw\<lparr>status := st'\<rparr>))))" for st' uid'
    unfolding updateSwapRequestStatus_found [OF sw]
    using sw by (simp add: status_checks_def)
  have "status_of (update_status d i st) i = Some st"
    by (rule status_of_found(2) [OF sw])
  then show "updateSwapRequestStatus d i st uid =
        (if st \<notin> set [''pending'', ''accepted'', ''rejected'', ''completed''] then
           (d, Inl invalid_status)
         else if senderId sw \<noteq> uid \<and> receiverId sw \<noteq> uid then
           (d, Inl (Error ''Not authorized to update this swap request''))
         else if (st = ''accepted'' \<or> st = ''rejected'') \<and> receiverId sw \<noteq> uid then
           (d, Inl (Error ''Only the receiver can accept or reject a swap request''))
         else (update_status d i st, Inr (Some (sw\<lparr>status := st\<rparr>)))) \<and>
      acceptSwapRequest d i (receiverId sw) =
        (update_status d i ''accepted'', Inr (Some (sw\<lparr>status := ''accepted''\<rparr>))) \<and>
      rejectSwapRequest d i (receiverId sw) =
        (update_status d i ''rejected'', Inr (Some (sw\<lparr>status := ''rejected''\<rparr>))) \<and>
      completeSwapRequest d i (senderId sw) =
        (update_status d i ''completed'', Inr (Some (sw\<lparr>status := ''completed''\<rparr>))) \<and>
      status_of (update_status d i st) i = Some st"
    using upd [of st uid]
    by (simp add: acceptSwapRequest_def rejectSwapRequest_def completeSwapRequest_def upd)
qed

theorem status_valid_and_never_terminal_witness:
  "valid_statuses \<lparr>users = [], skills = [], user_skills_offered = [], swap_requests = [],
                    feedback = []\<rparr> \<and>
   valid_statuses
     (run \<lparr>users = [], skills = [], user_skills_offered = [], swap_requests = [],
            feedback = []\<rparr>
        [PostSwaps (Some ''u1'') ''r9'' knitting_for_spanish, AcceptSwapRequest ''r9'' ''u2'']) \<and>
   valid_statuses db0 \<and>
   valid_statuses
     (run db0 [PostSwaps (Some ''u1'') ''r9'' knitting_for_spanish,
               AcceptSwapRequest ''r2'' ''u2'', CompleteSwapRequest ''r2'' ''u1'',
               UpdateSwapRequestStatus ''r4'' ''archived'' ''u1'']) \<and>
   getSwapRequestById db0 ''r2'' = Some (mk_swap ''r2'' ''rejected'') \<and>
   updateSwapRequestStatus db0 ''r2'' ''pending'' ''u1'' =
     (update_status db0 ''r2'' ''pending'', Inr (Some (mk_swap ''r2'' ''pending''))) \<and>
   acceptSwapRequest db0 ''r2'' ''u2'' =
     (update_status db0 ''r2'' ''accepted'', Inr (Some (mk_swap ''r2'' ''accepted''))) \<and>
   completeSwapRequest db0 ''r2'' ''u1'' =
     (update_status db0 ''r2'' ''completed'', Inr (Some (mk_swap ''r2'' ''completed'')))"
proof -
  have e: "valid_statuses \<lparr>users = [], skills = [], user_skills_offered = [],
      swap_requests = [], feedback = []\<rparr>"
    by (simp add: valid_statuses_def)
  show ?thesis
    using status_valid_and_never_terminal
        [where d = "\<lparr>users = [], skills = [], user_skills_offered = [], swap_requests = [],
                      feedback = []\<rparr>"
           and cs = "[PostSwaps (Some ''u1'') ''r9'' knitting_for_spanish,
                      AcceptSwapRequest ''r9'' ''u2'']"]
      status_valid_and_never_terminal
        [where d = db0 and i = "''r2''" and sw = "mk_swap ''r2'' ''rejected''"
           and st = "''pending''" and uid = "''u1''"
           and cs = "[PostSwaps (Some ''u1'') ''r9'' knitting_for_spanish,
                      AcceptSwapRequest ''r2'' ''u2'', CompleteSwapRequest ''r2'' ''u1'',
                      UpdateSwapRequestStatus ''r4'' ''archived'' ''u1'']"]
      e
    by (simp add: db0_valid db0_r2 mk_swap_sel)
qed

text \<open>
  Where C1 fails as stated: Bob, the receiver, accepts the request that he has
  rejected, and rejects the one that is completed; neither call fails, and each
  request has the new status afterwards.
\<close>

theorem terminal_status_counterexample:
  "status_of db0 ''r2'' = Some ''rejected'' \<and>
   \<not> isl (snd (acceptSwapRequest db0 ''r2'' ''u2'')) \<and>
   status_of (fst (acceptSwapRequest db0 ''r2'' ''u2'')) ''r2'' = Some ''accepted'' \<and>
   status_of db0 ''r4'' = Some ''completed'' \<and>
   \<not> isl (snd (rejectSwapRequest db0 ''r4'' ''u2'')) \<and>
   status_of (fst (rejectSwapRequest db0 ''r4'' ''u2'')) ''r4'' = Some ''rejected''"
  by (simp add: acceptSwapRequest_def rejectSwapRequest_def
      updateSwapRequestStatus_found [OF db0_r2] updateSwapRequestStatus_found [OF db0_r4]
      status_checks_def db0_r2 db0_r4 mk_swap_sel
      status_of_found [OF db0_r2] status_of_found [OF db0_r4])

text \<open>
  Claim C2, as amended. \<^verbatim>\<open>completeSwapRequest(id, actorId)\<close> succeeds exactly
  when the swap exists and the actor is its sender or its receiver, whatever the
  status of the swap; it then sets the status to completed. So completed is reached
  from pending in one step.
\<close>

theorem completeSwapRequest_from_any_status:
  "(\<not> isl (snd (completeSwapRequest d i uid)) \<longleftrightarrow>
      (\<exists>sw. getSwapRequestById d i = Some sw \<and> (uid = senderId sw \<or> uid = receiverId sw))) \<and>
   (\<forall>sw. getSwapRequestById d i = Some sw \<and> (uid = senderId sw \<or> uid = receiverId sw) \<longrightarrow>
      completeSwapRequest d i uid =
        (update_status d i ''completed'', Inr (Some (sw\<lparr>status := ''completed''\<rparr>))) \<and>
      status_of (fst (completeSwapRequest d i uid)) i = Some ''completed'')"
proof (cases "getSwapRequestById d i")
  case None
  then show ?thesis
    by (simp add: completeSwapRequest_def updateSwapRequestStatus_def status_checks_def)
next
  case (Some sw)
  show ?thesis
    unfolding completeSwapRequest_def updateSwapRequestStatus_found [OF Some]
    using Some
    by (auto simp: status_checks_def status_of_found(2) [OF Some])
qed

theorem completeSwapRequest_from_any_status_witness:
  "getSwapRequestById db0 ''r1'' = Some (mk_swap ''r1'' ''pending'') \<and>
   ''u1'' = senderId (mk_swap ''r1'' ''pending'') \<and>
   \<not> isl (snd (completeSwapRequest db0 ''r1'' ''u1'')) \<and>
   completeSwapRequest db0 ''r1'' ''u1'' =
     (update_status db0 ''r1'' ''completed'', Inr (Some (mk_swap ''r1'' ''completed''))) \<and>
   status_of (fst (completeSwapRequest db0 ''r1'' ''u1'')) ''r1'' = Some ''completed''"
  using completeSwapRequest_from_any_status [of db0 "''r1''" "''u1''"]
  by (simp add: db0_r1 mk_swap_sel status_of_found(2) [OF db0_r1])

text \<open>
  Where C2 fails as stated: Alice completes her request to Bob while it is pending.
\<close>

theorem complete_pending_counterexample:
  "status_of db0 ''r1'' = Some ''pending'' \<and>
   \<not> isl (snd (completeSwapRequest db0 ''r1'' ''u1'')) \<and>
   status_of (fst (completeSwapRequest db0 ''r1'' ''u1'')) ''r1'' = Some ''completed''"
  by (simp add: completeSwapRequest_def updateSwapRequestStatus_found [OF db0_r1]
      status_checks_def db0_r1 mk_swap_sel status_of_found [OF db0_r1])

text \<open>
  Claim C7. On a swap that exists, \<^verbatim>\<open>acceptSwapRequest\<close> and
  \<^verbatim>\<open>rejectSwapRequest\<close> called by anyone but the receiver throw: the sender is
  told that only the receiver can accept or reject, anyone else that he is not
  authorized. The database is returned as it was, so the swap keeps its status.
\<close>

theorem accept_reject_by_receiver_only:
  assumes "getSwapRequestById d i = Some sw" and "uid \<noteq> receiverId sw"
  shows "acceptSwapRequest d i uid =
           (d, Inl (Error (if uid = senderId sw
                           then ''Only the receiver can accept or reject a swap request''
                           else ''Not authorized to update this swap request''))) \<and>
         rejectSwapRequest d i uid =
           (d, Inl (Error (if uid = senderId sw
                           then ''Only the receiver can accept or reject a swap request''
                           else ''Not authorized to update this swap request''))) \<and>
         status_of (fst (acceptSwapRequest d i uid)) i = Some (status sw) \<and>
         status_of (fst (rejectSwapRequest d i uid)) i = Some (status sw)"
proof -
  have "status_checks d i st uid =
          Some (Error (if uid = senderId sw
                       then ''Only the receiver can accept or reject a swap request''
                       else ''Not authorized to update this swap request''))"
    if "st = ''accepted'' \<or> st = ''rejected''" for st
    using assms that by (auto simp: status_checks_def)
  then show ?thesis
    by (simp add: acceptSwapRequest_def rejectSwapRequest_def updateSwapRequestStatus_def
        status_of_found(1) [OF assms(1)])
qed

theorem accept_reject_by_receiver_only_witness:
  "getSwapRequestById db0 ''r1'' = Some (mk_swap ''r1'' ''pending'') \<and>
   ''u1'' \<noteq> receiverId (mk_swap ''r1'' ''pending'') \<and>
   acceptSwapRequest db0 ''r1'' ''u1'' =
     (db0, Inl (Error ''Only the receiver can accept or reject a swap request'')) \<and>
   rejectSwapRequest db0 ''r1'' ''u1'' =
     (db0, Inl (Error ''Only the receiver can accept or reject a swap request'')) \<and>
   status_of (fst (acceptSwapRequest db0 ''r1'' ''u1'')) ''r1'' = Some ''pending'' \<and>
   status_of (fst (rejectSwapRequest db0 ''r1'' ''u1'')) ''r1'' = Some ''pending''"
  using accept_reject_by_receiver_only [of db0 "''r1''" "mk_swap ''r1'' ''pending''" "''u1''"]
  by (simp add: db0_r1 mk_swap_sel status_of_found(1) [OF db0_r1])

text \<open>
  Claim C9. \<^verbatim>\<open>deleteSwapRequest(id, actorId)\<close> succeeds only when the swap
  exists, the actor is its sender and its status is pending. On an accepted swap it
  throws for every actor (for the sender: only pending swap requests can be deleted)
  and removes nothing: \<^verbatim>\<open>getSwapRequestById\<close> returns the swap afterwards, still
  accepted.
\<close>

theorem deleteSwapRequest_sender_and_pending_only:
  "(\<not> isl (snd (deleteSwapRequest d i uid)) \<longrightarrow>
      (\<exists>sw. getSwapRequestById d i = Some sw \<and> uid = senderId sw \<and> status sw = ''pending'')) \<and>
   (\<forall>sw. getSwapRequestById d i = Some sw \<and> status sw = ''accepted'' \<longrightarrow>
      deleteSwapRequest d i uid =
        (d, Inl (Error (if uid = senderId sw
                        then ''Only pending swap requests can be deleted''
                        else ''Only the sender can delete a swap request''))) \<and>
      getSwapRequestById (fst (deleteSwapRequest d i uid)) i = Some sw \<and>
      status_of (fst (deleteSwapRequest d i uid)) i = Some ''accepted'')"
  by (cases "getSwapRequestById d i")
    (auto simp: deleteSwapRequest_def status_of_def split: prod.splits)

theorem deleteSwapRequest_sender_and_pending_only_witness:
  "\<not> isl (snd (deleteSwapRequest db0 ''r1'' ''u1'')) \<and>
   getSwapRequestById db0 ''r1'' = Some (mk_swap ''r1'' ''pending'') \<and>
   getSwapRequestById db0 ''r3'' = Some (mk_swap ''r3'' ''accepted'') \<and>
   deleteSwapRequest db0 ''r3'' ''u1'' =
     (db0, Inl (Error ''Only pending swap requests can be deleted'')) \<and>
   getSwapRequestById (fst (deleteSwapRequest db0 ''r3'' ''u1'')) ''r3'' =
     Some (mk_swap ''r3'' ''accepted'')"
  using deleteSwapRequest_sender_and_pending_only [of db0 "''r1''" "''u1''"]
    deleteSwapRequest_sender_and_pending_only [of db0 "''r3''" "''u1''"]
  by (simp add: db0_r1 db0_r3 mk_swap_sel deleteSwapRequest_def split: prod.splits)

text \<open>
  Claim C3, as amended. The status is written by an update that is keyed on the
  identifier of the swap alone: it sets the status of the row whatever status the row
  has. The checks that go before it read the swap but not its status, so their
  outcome is the same after another transition has been written. Hence of two
  attempts that both pass their checks, both succeed, in sequence as well as when the
  second has made its checks before the first writes; the later write stands.
\<close>

theorem status_update_is_unconditional:
  assumes "status_checks d i st1 u1 = None" and "status_checks d i st2 u2 = None"
  shows "swap_requests (fst (status_write d i st1)) =
           map (\<lambda>sr. if sr_id sr = i then sr\<lparr>sr_status := st1\<rparr> else sr) (swap_requests d) \<and>
         status_checks (fst (status_write d i st1)) i st2 u2 = None \<and>
         \<not> isl (snd (updateSwapRequestStatus d i st1 u1)) \<and>
         \<not> isl (snd (updateSwapRequestStatus (fst (updateSwapRequestStatus d i st1 u1)) i st2 u2)) \<and>
         status_of (fst (updateSwapRequestStatus (fst (updateSwapRequestStatus d i st1 u1)) i st2 u2)) i
           = Some st2 \<and>
         status_of (fst (status_write (fst (status_write d i st1)) i st2)) i = Some st2"
proof -
  obtain sw where sw: "getSwapRequestById d i = Some sw"
    using assms(1) by (auto simp: status_checks_def split: if_splits option.splits)
  have w: "fst (status_write d' i st) = update_status d' i st" for d' st
    by (simp add: status_write_def Let_def)
  have sw1: "getSwapRequestById (update_status d i st1) i = Some (sw\<lparr>status := st1\<rparr>)"
    using sw by (simp add: getSwapRequestById_update_status)
  have c2: "status_checks (update_status d i st1) i st2 u2 = None"
    using assms(2) by (simp add: status_checks_update_status)
  have first: "updateSwapRequestStatus d i st1 u1 =
      (update_status d i st1, Inr (Some (sw\<lparr>status := st1\<rparr>)))"
    using assms(1) by (simp add: updateSwapRequestStatus_found [OF sw])
  have second: "updateSwapRequestStatus (update_status d i st1) i st2 u2 =
      (update_status (update_status d i st1) i st2, Inr (Some (sw\<lparr>status := st2\<rparr>)))"
    using c2 by (simp add: updateSwapRequestStatus_found [OF sw1])
  show ?thesis
    by (simp add: w swap_requests_update_status c2 first second status_of_found(2) [OF sw1])
qed

theorem status_update_is_unconditional_witness:
  "status_checks db0 ''r1'' ''accepted'' ''u2'' = None \<and>
   status_checks db0 ''r1'' ''rejected'' ''u2'' = None \<and>
   \<not> isl (snd (updateSwapRequestStatus db0 ''r1'' ''accepted'' ''u2'')) \<and>
   \<not> isl (snd (updateSwapRequestStatus
                 (fst (updateSwapRequestStatus db0 ''r1'' ''accepted'' ''u2''))
                 ''r1'' ''rejected'' ''u2'')) \<and>
   status_of (fst (updateSwapRequestStatus
                 (fst (updateSwapRequestStatus db0 ''r1'' ''accepted'' ''u2''))
                 ''r1'' ''rejected'' ''u2'')) ''r1'' = Some ''rejected''"
proof -
  have c: "status_checks db0 ''r1'' ''accepted'' ''u2'' = None"
    "status_checks db0 ''r1'' ''rejected'' ''u2'' = None"
    by (simp_all add: status_checks_def db0_r1 mk_swap_sel)
  show ?thesis
    using status_update_is_unconditional [OF c] c by simp
qed

text \<open>
  Where C3 fails as stated: Bob accepts the pending request twice, one call after the
  other. The second call finds the request accepted already; both calls succeed.
\<close>

theorem two_accepts_counterexample:
  "status_of db0 ''r1'' = Some ''pending'' \<and>
   \<not> isl (snd (acceptSwapRequest db0 ''r1'' ''u2'')) \<and>
   status_of (fst (acceptSwapRequest db0 ''r1'' ''u2'')) ''r1'' = Some ''accepted'' \<and>
   \<not> isl (snd (acceptSwapRequest (fst (acceptSwapRequest db0 ''r1'' ''u2'')) ''r1'' ''u2''))"
proof -
  have c: "status_checks db0 ''r1'' ''accepted'' ''u2'' = None"
    by (simp add: status_checks_def db0_r1 mk_swap_sel)
  have a: "acceptSwapRequest db0 ''r1'' ''u2'' =
      (update_status db0 ''r1'' ''accepted'', Inr (Some (mk_swap ''r1'' ''accepted'')))"
    by (simp add: acceptSwapRequest_def updateSwapRequestStatus_found [OF db0_r1] c mk_swap_sel)
  have r: "getSwapRequestById (update_status db0 ''r1'' ''accepted'') ''r1'' =
      Some (mk_swap ''r1'' ''accepted'')"
    by (simp add: getSwapRequestById_update_status db0_r1 mk_swap_sel)
  have c': "status_checks (update_status db0 ''r1'' ''accepted'') ''r1'' ''accepted'' ''u2'' = None"
    by (simp add: status_checks_update_status c)
  show ?thesis
    by (simp add: a status_of_found [OF db0_r1] mk_swap_sel
        acceptSwapRequest_def [of "update_status db0 ''r1'' ''accepted''"]
        updateSwapRequestStatus_found [OF r] c')
qed

lemma insert_swap_request_Inr:
  "insert_swap_request d r = Inr d' \<longleftrightarrow>
     d' = d\<lparr>swap_requests := swap_requests d @ [r]\<rparr> \<and>
     sr_id r \<notin> set (map sr_id (swap_requests d)) \<and>
     sr_sender_id r \<in> set (map u_id (users d)) \<and>
     sr_receiver_id r \<in> set (map u_id (users d)) \<and>
     sr_offered_skill_id r \<in> set (map s_id (skills d)) \<and>
     sr_wanted_skill_id r \<in> set (map s_id (skills d)) \<and>
     (case sr_message r of None \<Rightarrow> True | Some m \<Rightarrow> length m \<le> 500)"
  by (auto simp: insert_swap_request_def split: option.splits)

text \<open>The controller's checks, when the body is valid and the receiver was found.\<close>

lemma ctl_createSwapRequest_checked:
  assumes "create_validators b = []" and "b_receiverId b \<noteq> ru_id user"
    and "getUserById d (b_receiverId b) = Some receiver"
    and "list_ex (\<lambda>sk. skill_id sk = b_offeredSkillId b) (getUserOfferedSkills d (ru_id user))"
    and "list_ex (\<lambda>sk. skill_id sk = b_wantedSkillId b)
           (getUserOfferedSkills d (b_receiverId b))"
  shows "ctl_createSwapRequest d user newId b =
     (case createSwapRequest d newId
             \<lparr>sd_senderId = ru_id user, sd_receiverId = b_receiverId b,
              sd_offeredSkillId = b_offeredSkillId b,
              sd_wantedSkillId = b_wantedSkillId b, sd_message = b_message b\<rparr> of
        (d', Inl e) \<Rightarrow> (d', Fail 500 ''Server error'')
      | (d', Inr swapRequest) \<Rightarrow> (d', Ok 201 swapRequest))"
  using assms by (simp add: ctl_createSwapRequest_def)

text \<open>
  Claim C4, as amended. \<^verbatim>\<open>createSwapRequest\<close> of the controller succeeds
  only when the offered skill is among the sender's offered skills and the wanted
  skill among the receiver's (and the receiver is another user, found and not banned). The status of
  the skills in the directory plays no part: when these hold for a valid body, with a
  fresh identifier and a message that fits its column, the request is created,
  pending, whatever the status of the two skills.
\<close>

theorem createSwapRequest_checks_ownership_only:
  "(ctl_createSwapRequest d user newId b = (d', Ok 201 r) \<longrightarrow>
      b_offeredSkillId b \<in> set (map skill_id (getUserOfferedSkills d (ru_id user))) \<and>
      b_wantedSkillId b \<in> set (map skill_id (getUserOfferedSkills d (b_receiverId b))) \<and>
      b_receiverId b \<noteq> ru_id user \<and> getUserById d (b_receiverId b) \<noteq> None) \<and>
   (b_offeredSkillId b \<in> set (map skill_id (getUserOfferedSkills d (ru_id user))) \<and>
    b_wantedSkillId b \<in> set (map skill_id (getUserOfferedSkills d (b_receiverId b))) \<and>
    b_receiverId b \<noteq> ru_id user \<and> getUserById d (b_receiverId b) \<noteq> None \<and>
    create_validators b = [] \<and> ru_id user \<in> set (map u_id (users d)) \<and>
    newId \<notin> set (map sr_id (swap_requests d)) \<and>
    (case or_null (b_message b) of None \<Rightarrow> True | Some m \<Rightarrow> length m \<le> 500) \<longrightarrow>
      fst (ctl_createSwapRequest d user newId b) =
        d\<lparr>swap_requests := swap_requests d @
            [\<lparr>sr_id = newId, sr_sender_id = ru_id user, sr_receiver_id = b_receiverId b,
              sr_offered_skill_id = b_offeredSkillId b,
              sr_wanted_skill_id = b_wantedSkillId b,
              sr_message = or_null (b_message b), sr_status = ''pending''\<rparr>]\<rparr> \<and>
      snd (ctl_createSwapRequest d user newId b) =
        Ok 201 (getSwapRequestById (fst (ctl_createSwapRequest d user newId b)) newId))"
proof -
  let ?row = "\<lparr>sr_id = newId, sr_sender_id = ru_id user, sr_receiver_id = b_receiverId b,
      sr_offered_skill_id = b_offeredSkillId b, sr_wanted_skill_id = b_wantedSkillId b,
      sr_message = or_null (b_message b), sr_status = ''pending''\<rparr>"
  have only: "b_offeredSkillId b \<in> set (map skill_id (getUserOfferedSkills d (ru_id user))) \<and>
      b_wantedSkillId b \<in> set (map skill_id (getUserOfferedSkills d (b_receiverId b))) \<and>
      b_receiverId b \<noteq> ru_id user \<and> getUserById d (b_receiverId b) \<noteq> None"
    if "ctl_createSwapRequest d user newId b = (d', Ok 201 r)"
  proof -
    from that have "list_ex (\<lambda>sk. skill_id sk = b_offeredSkillId b)
          (getUserOfferedSkills d (ru_id user)) \<and>
        list_ex (\<lambda>sk. skill_id sk = b_wantedSkillId b)
          (getUserOfferedSkills d (b_receiverId b)) \<and>
        b_receiverId b \<noteq> ru_id user \<and> getUserById d (b_receiverId b) \<noteq> None"
      by (simp add: ctl_createSwapRequest_def split: if_splits option.splits)
    then show ?thesis
      by (auto simp: list_ex_iff intro: image_eqI [OF sym])
  qed
  have created: "fst (ctl_createSwapRequest d user newId b) = d\<lparr>swap_requests := swap_requests d @ [?row]\<rparr> \<and>
      snd (ctl_createSwapRequest d user newId b) =
        Ok 201 (getSwapRequestById (fst (ctl_createSwapRequest d user newId b)) newId)"
    if off: "b_offeredSkillId b \<in> set (map skill_id (getUserOfferedSkills d (ru_id user)))"
      and want: "b_wantedSkillId b \<in> set (map skill_id (getUserOfferedSkills d (b_receiverId b)))"
      and other: "b_receiverId b \<noteq> ru_id user"
      and recv: "getUserById d (b_receiverId b) \<noteq> None"
      and valid: "create_validators b = []"
      and sender: "ru_id user \<in> set (map u_id (users d))"
      and fresh: "newId \<notin> set (map sr_id (swap_requests d))"
      and fits: "case or_null (b_message b) of None \<Rightarrow> True | Some m \<Rightarrow> length m \<le> 500"
  proof -
    obtain receiver where r: "getUserById d (b_receiverId b) = Some receiver"
      using recv by auto
    have o: "list_ex (\<lambda>sk. skill_id sk = b_offeredSkillId b) (getUserOfferedSkills d (ru_id user))"
      and w: "list_ex (\<lambda>sk. skill_id sk = b_wantedSkillId b)
                (getUserOfferedSkills d (b_receiverId b))"
      using off want by (auto simp: list_ex_iff)
    have "insert_swap_request d ?row = Inr (d\<lparr>swap_requests := swap_requests d @ [?row]\<rparr>)"
      unfolding insert_swap_request_Inr
      using fresh sender fits getUserById_Some_user [OF r]
        offered_skill_exists [OF o] offered_skill_exists [OF w]
      by simp
    then show ?thesis
      by (simp add: ctl_createSwapRequest_checked [OF valid other r o w] createSwapRequest_def)
  qed
  show ?thesis
    using only created by blast
qed

lemma db0_knitting:
  "ctl_createSwapRequest db0 alice ''r9'' knitting_for_spanish =
     (db0\<lparr>swap_requests := swap_requests db0 @
            [\<lparr>sr_id = ''r9'', sr_sender_id = ''u1'', sr_receiver_id = ''u2'',
              sr_offered_skill_id = ''k3'', sr_wanted_skill_id = ''k2'',
              sr_message = None, sr_status = ''pending''\<rparr>]\<rparr>,
      Ok 201 (Some \<lparr>swap_id = ''r9'', senderId = ''u1'', senderName = ''Alice'',
                     senderPhoto = None, receiverId = ''u2'', receiverName = ''Bob'',
                     receiverPhoto = None, offeredSkillId = ''k3'',
                     offeredSkillName = ''Knitting'', wantedSkillId = ''k2'',
                     wantedSkillName = ''Spanish'', message = None, status = ''pending'',
                     swap_feedback = []\<rparr>))"
  by code_simp

theorem createSwapRequest_checks_ownership_only_witness:
  "ctl_createSwapRequest db0 alice ''r9'' knitting_for_spanish =
     (db0\<lparr>swap_requests := swap_requests db0 @
            [\<lparr>sr_id = ''r9'', sr_sender_id = ''u1'', sr_receiver_id = ''u2'',
              sr_offered_skill_id = ''k3'', sr_wanted_skill_id = ''k2'',
              sr_message = None, sr_status = ''pending''\<rparr>]\<rparr>,
      Ok 201 (Some \<lparr>swap_id = ''r9'', senderId = ''u1'', senderName = ''Alice'',
                     senderPhoto = None, receiverId = ''u2'', receiverName = ''Bob'',
                     receiverPhoto = None, offeredSkillId = ''k3'',
                     offeredSkillName = ''Knitting'', wantedSkillId = ''k2'',
                     wantedSkillName = ''Spanish'', message = None, status = ''pending'',
                     swap_feedback = []\<rparr>)) \<and>
   b_offeredSkillId knitting_for_spanish
     \<in> set (map skill_id (getUserOfferedSkills db0 (ru_id alice))) \<and>
   b_wantedSkillId knitting_for_spanish
     \<in> set (map skill_id (getUserOfferedSkills db0 (b_receiverId knitting_for_spanish))) \<and>
   b_receiverId knitting_for_spanish \<noteq> ru_id alice \<and>
   getUserById db0 (b_receiverId knitting_for_spanish) \<noteq> None \<and>
   create_validators knitting_for_spanish = [] \<and>
   ru_id alice \<in> set (map u_id (users db0)) \<and>
   ''r9'' \<notin> set (map sr_id (swap_requests db0)) \<and>
   (case or_null (b_message knitting_for_spanish) of
      None \<Rightarrow> True | Some m \<Rightarrow> length m \<le> 500) \<and>
   snd (ctl_createSwapRequest db0 alice ''r9'' knitting_for_spanish) =
     Ok 201 (getSwapRequestById
               (fst (ctl_createSwapRequest db0 alice ''r9'' knitting_for_spanish)) ''r9'')"
proof -
  have h: "create_validators knitting_for_spanish = [] \<and>
    ru_id alice \<in> set (map u_id (users db0)) \<and>
    ''r9'' \<notin> set (map sr_id (swap_requests db0)) \<and>
    (case or_null (b_message knitting_for_spanish) of
       None \<Rightarrow> True | Some m \<Rightarrow> length m \<le> 500)"
    by code_simp
  show ?thesis
    using createSwapRequest_checks_ownership_only
      [where d = db0 and user = alice and newId = "''r9''" and b = knitting_for_spanish]
      db0_knitting h
    by blast
qed

text \<open>
  Where C4 fails as stated: Knitting is pending in the directory, and Alice's request
  that offers it to Bob is created.
\<close>

theorem pending_skill_counterexample:
  "map s_status (filter (\<lambda>s. s_id s = ''k3'') (skills db0)) = [''pending''] \<and>
   snd (ctl_createSwapRequest db0 alice ''r9'' knitting_for_spanish) =
     Ok 201 (Some \<lparr>swap_id = ''r9'', senderId = ''u1'', senderName = ''Alice'',
                    senderPhoto = None, receiverId = ''u2'', receiverName = ''Bob'',
                    receiverPhoto = None, offeredSkillId = ''k3'',
                    offeredSkillName = ''Knitting'', wantedSkillId = ''k2'',
                    wantedSkillName = ''Spanish'', message = None, status = ''pending'',
                    swap_feedback = []\<rparr>) \<and>
   map sr_offered_skill_id
     (filter (\<lambda>sr. sr_id sr = ''r9'')
        (swap_requests (fst (ctl_createSwapRequest db0 alice ''r9'' knitting_for_spanish)))) =
     [''k3'']"
proof -
  have "map s_status (filter (\<lambda>s. s_id s = ''k3'') (skills db0)) = [''pending'']"
    by code_simp
  then show ?thesis
    by (simp add: db0_knitting) (simp add: db0_def mk_swap_row_def)
qed

text \<open>
  Claim C5, as amended. A banned sender is stopped by the authentication middleware:
  the route answers 403, that the account has been banned. A banned receiver is not
  found by \<^verbatim>\<open>getUserById\<close>, which selects users that are not banned: for a sender
  who is let through and a valid body the controller answers 404, receiver not
  found. Neither request writes anything. The ban itself changes no swap request, and
  every swap reads after it as before.
\<close>

theorem banned_users_and_new_swaps:
  "(i \<in> set (map u_id (users d)) \<and> (\<forall>u \<in> set (users d). u_id u = i \<longrightarrow> u_is_banned u) \<longrightarrow>
      post_swaps d (Some i) newId b =
        (d, Fail 403 ''Your account has been banned. Please contact support.'')) \<and>
   (b_receiverId b \<in> set (map u_id (users d)) \<and>
    (\<forall>u \<in> set (users d). u_id u = b_receiverId b \<longrightarrow> u_is_banned u) \<and>
    (protect d token :: swap option response + req_user) = Inr user \<and>
    create_validators b = [] \<longrightarrow>
      post_swaps d token newId b = (d, Fail 404 ''Receiver not found'')) \<and>
   swap_requests (ban_update d j reason) = swap_requests d \<and>
   getSwapRequestById (ban_update d j reason) k = getSwapRequestById d k"
proof -
  have sender: "post_swaps d (Some i) newId b =
      (d, Fail 403 ''Your account has been banned. Please contact support.'')"
    if "i \<in> set (map u_id (users d))" and "\<forall>u \<in> set (users d). u_id u = i \<longrightarrow> u_is_banned u"
    by (simp add: post_swaps_def protect_banned [OF that])
  have receiver: "post_swaps d token newId b = (d, Fail 404 ''Receiver not found'')"
    if banned: "\<forall>u \<in> set (users d). u_id u = b_receiverId b \<longrightarrow> u_is_banned u"
      and p: "(protect d token :: swap option response + req_user) = Inr user"
      and valid: "create_validators b = []"
  proof -
    obtain u where "u \<in> set (users d)" and "u_id u = ru_id user" and "\<not> u_is_banned u"
      using p by (rule protect_Inr)
    then have "b_receiverId b \<noteq> ru_id user"
      using banned by auto
    then show ?thesis
      by (simp add: post_swaps_def p ctl_createSwapRequest_def valid getUserById_banned [OF banned])
  qed
  show ?thesis
    using sender receiver
    by (simp add: ban_update_tables(1) getSwapRequestById_ban_update)
qed

theorem banned_users_and_new_swaps_witness:
  "''u4'' \<in> set (map u_id (users db0)) \<and>
   post_swaps db0 (Some ''u4'') ''r9'' knitting_for_spanish =
     (db0, Fail 403 ''Your account has been banned. Please contact support.'') \<and>
   (protect db0 (Some ''u1'') :: swap option response + req_user) = Inr alice \<and>
   create_validators guitar_to_dave = [] \<and>
   post_swaps db0 (Some ''u1'') ''r9'' guitar_to_dave = (db0, Fail 404 ''Receiver not found'') \<and>
   getSwapRequestById (ban_update db0 ''u2'' ''spam'') ''r3'' = Some (mk_swap ''r3'' ''accepted'')"
proof -
  have dave: "''u4'' \<in> set (map u_id (users db0))"
    "\<forall>u \<in> set (users db0). u_id u = ''u4'' \<longrightarrow> u_is_banned u"
    "b_receiverId guitar_to_dave = ''u4''"
    by (simp_all add: db0_def mk_user_def guitar_to_dave_def)
  have p: "(protect db0 (Some ''u1'') :: swap option response + req_user) = Inr alice"
    by code_simp
  have v: "create_validators guitar_to_dave = []"
    by code_simp
  show ?thesis
    using banned_users_and_new_swaps [where i = "''u4''" and d = db0 and newId = "''r9''"
        and b = knitting_for_spanish]
      banned_users_and_new_swaps [where d = db0 and b = guitar_to_dave
        and token = "Some ''u1''" and user = alice and newId = "''r9''"
        and j = "''u2''" and reason = "''spam''" and k = "''r3''"]
      dave p v
    by (simp add: db0_r3)
qed

text \<open>
  Where C5 fails as stated: Dave is banned, and Alice's request to him is answered
  with 404, receiver not found, not with an error that tells of a ban.
\<close>

theorem banned_receiver_counterexample:
  "map u_is_banned (filter (\<lambda>u. u_id u = ''u4'') (users db0)) = [True] \<and>
   post_swaps db0 (Some ''u1'') ''r9'' guitar_to_dave = (db0, Fail 404 ''Receiver not found'')"
  by code_simp

section \<open>Feedback\<close>

text \<open>
  Claim C6. A rating outside 1 to 5 is refused: the validator of the feedback route
  (\<^verbatim>\<open>isInt({ min: 1, max: 5 })\<close>) makes \<^verbatim>\<open>addFeedback\<close> of the controller
  answer 400 with the rating error, before the model is called and with the database
  as it was. The model's \<^verbatim>\<open>addFeedback\<close>, called with such a rating, throws as
  well and inserts no row: when its own checks pass, the insert violates the
  \<^verbatim>\<open>CHECK (rating BETWEEN 1 AND 5)\<close> of the table.
\<close>

theorem addFeedback_rating_out_of_range:
  assumes "\<not> (1 \<le> r \<and> r \<le> 5)"
  shows "ctl_addFeedback d user newId i r c =
           (d, Invalid [''Rating is required and must be between 1 and 5'']) \<and>
         isl (snd (addFeedback d newId i uid r c)) \<and>
         fst (addFeedback d newId i uid r c) = d \<and>
         feedback (fst (addFeedback d newId i uid r c)) = feedback d"
proof -
  have "feedback_validators r = [''Rating is required and must be between 1 and 5'']"
    using assms by (simp add: feedback_validators_def)
  then show ?thesis
    using addFeedback_out_of_range [OF assms, of d newId i uid c]
    by (simp add: ctl_addFeedback_def)
qed

theorem addFeedback_rating_out_of_range_witness:
  "\<not> (1 \<le> (6::int) \<and> (6::int) \<le> 5) \<and>
   ctl_addFeedback db0 alice ''f1'' ''r4'' 6 None =
     (db0, Invalid [''Rating is required and must be between 1 and 5'']) \<and>
   addFeedback db0 ''f1'' ''r4'' ''u1'' 6 None =
     (db0, Inl (ConstraintViolation ''feedback.rating CHECK (rating BETWEEN 1 AND 5)'')) \<and>
   feedback (fst (addFeedback db0 ''f1'' ''r4'' ''u1'' 6 None)) = []"
proof -
  have "addFeedback db0 ''f1'' ''r4'' ''u1'' 6 None =
      (db0, Inl (ConstraintViolation ''feedback.rating CHECK (rating BETWEEN 1 AND 5)''))"
    by (simp add: addFeedback_found [OF db0_r4] mk_swap_sel insert_feedback_def)
      (simp add: db0_def)
  then show ?thesis
    using addFeedback_rating_out_of_range [of 6 db0
        alice "''f1''" "''r4''" None "''u1''"]
    by (simp add: db0_def)
qed

text \<open>
  Claim C8. On a completed swap a participant who has left no feedback yet succeeds
  with a rating from 1 to 5 (given a fresh identifier and a comment that fits the
  column), and one row is written. Whenever a call has succeeded, every further call
  by the same author on the same swap throws that feedback was already left, and
  writes nothing. On a pending or accepted swap a participant's call throws that
  feedback can only be added to completed swaps, and writes nothing; so does the call
  of anyone else, who is told that only participants can add feedback.
\<close>

theorem addFeedback_once_and_only_when_completed:
  assumes "getSwapRequestById d i = Some sw"
  shows "(status sw = ''pending'' \<or> status sw = ''accepted'' \<longrightarrow>
            addFeedback d newId i uid r c =
              (d, Inl (Error (if uid = senderId sw \<or> uid = receiverId sw
                              then ''Feedback can only be added to completed swaps''
                              else ''Only participants can add feedback'')))) \<and>
         ((uid = senderId sw \<or> uid = receiverId sw) \<and> status sw = ''completed'' \<and>
          filter (\<lambda>f. f_swap_id f = i \<and> f_user_id f = uid) (feedback d) = [] \<and>
          1 \<le> r \<and> r \<le> 5 \<and> newId \<notin> set (map f_id (feedback d)) \<and>
          (case c of None \<Rightarrow> True | Some t \<Rightarrow> length t \<le> 500) \<longrightarrow>
            \<not> isl (snd (addFeedback d newId i uid r c)) \<and>
            feedback (fst (addFeedback d newId i uid r c)) =
              feedback d @ [\<lparr>f_id = newId, f_swap_id = i, f_user_id = uid,
                              f_rating = r, f_comment = c\<rparr>]) \<and>
         (\<not> isl (snd (addFeedback d newId i uid r c)) \<longrightarrow>
            addFeedback (fst (addFeedback d newId i uid r c)) newId' i uid r' c' =
              (fst (addFeedback d newId i uid r c),
               Inl (Error ''You have already left feedback for this swap'')))"
proof -
  let ?row = "\<lparr>f_id = newId, f_swap_id = i, f_user_id = uid, f_rating = r, f_comment = c\<rparr>"
  let ?d' = "fst (addFeedback d newId i uid r c)"
  have early: "status sw = ''pending'' \<or> status sw = ''accepted'' \<longrightarrow>
      addFeedback d newId i uid r c =
        (d, Inl (Error (if uid = senderId sw \<or> uid = receiverId sw
                        then ''Feedback can only be added to completed swaps''
                        else ''Only participants can add feedback'')))"
    by (auto simp: addFeedback_found [OF assms])
  have first: "\<not> isl (snd (addFeedback d newId i uid r c)) \<and>
      feedback (fst (addFeedback d newId i uid r c)) = feedback d @ [?row]"
    if part: "uid = senderId sw \<or> uid = receiverId sw"
      and st: "status sw = ''completed''"
      and chk: "filter (\<lambda>f. f_swap_id f = i \<and> f_user_id f = uid) (feedback d) = []"
      and rating: "1 \<le> r" "r \<le> 5"
      and fresh: "newId \<notin> set (map f_id (feedback d))"
      and fits: "case c of None \<Rightarrow> True | Some t \<Rightarrow> length t \<le> 500"
  proof -
    define created where "created =
      [feedback_obj_of f u. f \<leftarrow> feedback (d\<lparr>feedback := feedback d @ [?row]\<rparr>),
         f_id f = newId,
         u \<leftarrow> users (d\<lparr>feedback := feedback d @ [?row]\<rparr>), u_id u = f_user_id f]"
    have user: "uid \<in> set (map u_id (users d))"
      using part getSwapRequestById_facts(3,4) [OF assms] by auto
    have swap: "i \<in> set (map sr_id (swap_requests d))"
      by (rule getSwapRequestById_facts(2) [OF assms])
    have pair: "(uid, i) \<notin> set (map (\<lambda>f. (f_user_id f, f_swap_id f)) (feedback d))"
      using chk by (auto simp: filter_empty_conv)
    have ins: "insert_feedback d ?row = Inr (d\<lparr>feedback := feedback d @ [?row]\<rparr>)"
      unfolding insert_feedback_Inr using rating fresh fits user swap pair
      by (auto split: option.splits)
    have found: "created \<noteq> []"
      unfolding created_def
      using created_feedback_found [where fs = "feedback d" and newId = newId and i = i
          and r = r and c = c, OF user]
      by (simp cong: if_cong)
    have "addFeedback d newId i uid r c =
        (case created of
           [] \<Rightarrow> (d\<lparr>feedback := feedback d @ [?row]\<rparr>,
                   Inl (Error ''Error retrieving created feedback''))
         | fb # _ \<Rightarrow> (d\<lparr>feedback := feedback d @ [?row]\<rparr>, Inr fb))"
      unfolding created_def
      by (simp only: addFeedback_checked [OF assms part st chk] ins sum.case)
    with found show ?thesis
      by (cases created) simp_all
  qed
  have again: "addFeedback ?d' newId' i uid r' c' =
      (?d', Inl (Error ''You have already left feedback for this swap''))"
    if ok: "\<not> isl (snd (addFeedback d newId i uid r c))"
  proof -
    obtain fb where "addFeedback d newId i uid r c = (?d', Inr fb)"
      using ok
      by (cases "addFeedback d newId i uid r c"; cases "snd (addFeedback d newId i uid r c)")
        auto
    then obtain sw0 where sw0: "getSwapRequestById d i = Some sw0"
      and part: "senderId sw0 = uid \<or> receiverId sw0 = uid"
      and st: "status sw0 = ''completed''"
      and d': "?d' = d\<lparr>feedback := feedback d @ [?row]\<rparr>"
      by (rule addFeedback_success)
    have sw0_eq: "sw0 = sw" using sw0 assms by simp
    have read: "getSwapRequestById ?d' i = Some (sw\<lparr>swap_feedback := feedback_of_swap ?d' i\<rparr>)"
      by (subst getSwapRequestById_feedback_only [of ?d' d]) (simp_all add: d' assms)
    have dup: "filter (\<lambda>f. f_swap_id f = i \<and> f_user_id f = uid) (feedback ?d') \<noteq> []"
      by (simp add: d')
    show ?thesis
      unfolding addFeedback_found [OF read]
      using part st sw0_eq dup by auto
  qed
  show ?thesis
    using early first again by blast
qed

theorem addFeedback_once_and_only_when_completed_witness:
  "getSwapRequestById db0 ''r4'' = Some (mk_swap ''r4'' ''completed'') \<and>
   getSwapRequestById db0 ''r1'' = Some (mk_swap ''r1'' ''pending'') \<and>
   addFeedback db0 ''f1'' ''r1'' ''u2'' 5 (Some ''Great lesson'') =
     (db0, Inl (Error ''Feedback can only be added to completed swaps'')) \<and>
   \<not> isl (snd (addFeedback db0 ''f1'' ''r4'' ''u2'' 5 (Some ''Great lesson''))) \<and>
   feedback (fst (addFeedback db0 ''f1'' ''r4'' ''u2'' 5 (Some ''Great lesson''))) =
     [\<lparr>f_id = ''f1'', f_swap_id = ''r4'', f_user_id = ''u2'', f_rating = 5,
       f_comment = Some ''Great lesson''\<rparr>] \<and>
   addFeedback (fst (addFeedback db0 ''f1'' ''r4'' ''u2'' 5 (Some ''Great lesson'')))
       ''f2'' ''r4'' ''u2'' 4 (Some ''again'') =
     (fst (addFeedback db0 ''f1'' ''r4'' ''u2'' 5 (Some ''Great lesson'')),
      Inl (Error ''You have already left feedback for this swap''))"
proof -
  have e: "feedback db0 = []" by (simp add: db0_def)
  show ?thesis
    using addFeedback_once_and_only_when_completed [where d = db0 and i = "''r4''"
        and sw = "mk_swap ''r4'' ''completed''" and uid = "''u2''" and newId = "''f1''"
        and r = 5 and c = "Some ''Great lesson''" and newId' = "''f2''" and r' = 4
        and c' = "Some ''again''"]
      addFeedback_once_and_only_when_completed [where d = db0 and i = "''r1''"
        and sw = "mk_swap ''r1'' ''pending''" and uid = "''u2''" and newId = "''f1''"
        and r = 5 and c = "Some ''Great lesson''"]
    by (simp add: db0_r1 db0_r4 mk_swap_sel e)
qed

section \<open>The skill directory\<close>










end
